theory Spec2Isabelle
  imports Main
begin

section \<open>Data model\<close>

text \<open>
  The embedding follows \<^verbatim>\<open>src/models/User.ts\<close>, \<^verbatim>\<open>src/middleware/auth.ts\<close> and
  \<^verbatim>\<open>src/middleware/authMiddleware.ts\<close>. Strings are ASCII character lists. The
  timestamps \<^verbatim>\<open>createdAt\<close>/\<^verbatim>\<open>updatedAt\<close> are managed by the ORM, are read by no
  function embedded here and are left out of the row.
\<close>

text \<open>
  Modelled from the spec: the enumeration \<^verbatim>\<open>UserRole\<close> of \<^verbatim>\<open>../types\<close>, which is not part
  of the sources at hand. The spec lists "standard user, wallet user, admin"; the code
  names only \<^verbatim>\<open>UserRole.WEB3_USER\<close>.
\<close>

datatype UserRole = USER | WEB3_USER | ADMIN

text \<open>
  The row of table \<^verbatim>\<open>users\<close> (\<^verbatim>\<open>User.init\<close>). \<^verbatim>\<open>uid\<close> is the column \<^verbatim>\<open>id\<close>.
\<close>

record User =
  uid :: string
  email :: string
  password :: string
  role :: UserRole
  walletAddress :: "string option"
  walletData :: "(string \<times> string) option"
  isActive :: bool
  isWalletVerified :: bool

text \<open>
  A model instance: the row values together with the ORM's set of changed attribute
  names, which \<^verbatim>\<open>this.changed('password')\<close> reads.
\<close>

record Instance =
  dataValues :: User
  changed :: "string set"

text \<open>
  The attributes handed to \<^verbatim>\<open>User.create\<close>; an attribute that the caller leaves out is
  \<open>None\<close> and takes the column's \<^verbatim>\<open>defaultValue\<close>.
\<close>

record CreateUserAttributes =
  c_email :: string
  c_password :: string
  c_role :: "UserRole option"
  c_walletAddress :: "string option"
  c_isActive :: "bool option"
  c_isWalletVerified :: "bool option"

text \<open>
  The claims carried by a token, as the handlers read and write them
  (\<^verbatim>\<open>decoded.userId\<close>, \<^verbatim>\<open>req.user.role\<close>, \<^verbatim>\<open>req.user.walletAddress\<close>).
\<close>

record TokenPayload =
  userId :: string
  tok_role :: UserRole
  tok_walletAddress :: "string option"

record TokenPair =
  accessToken :: string
  refreshToken_of :: string

text \<open>
  What a \<^verbatim>\<open>throw\<close> can carry. \<^verbatim>\<open>JsonWebTokenError\<close> is the jsonwebtoken library's error
  class (its expiry error is a subclass), \<^verbatim>\<open>JWTError\<close> and \<^verbatim>\<open>ApiError\<close> are the
  repository's own classes, \<^verbatim>\<open>Error\<close> is any other JavaScript error with its message, and
  \<^verbatim>\<open>NonError\<close> is a thrown value that is no \<^verbatim>\<open>Error\<close> at all.
\<close>

datatype js_error =
    JsonWebTokenError string
  | JWTError string
  | ApiError nat string
  | Error string
  | NonError

text \<open>The JSON bodies the handlers send.\<close>

record UserView =
  v_id :: string
  v_role :: UserRole
  v_walletAddress :: "string option"
  v_isWalletVerified :: "bool option"

datatype body =
    Message string
  | Tokens TokenPair
  | WalletLogin UserView TokenPair
  | Web3Login string UserView

text \<open>
  The request as the middleware sees it: the \<^verbatim>\<open>Authorization\<close> header, the fields of the
  JSON body that some handler reads (absent is \<open>None\<close>), and \<^verbatim>\<open>req.user\<close>.
\<close>

record Request =
  authorization :: "string option"
  b_walletAddress :: "string option"
  b_signature :: "string option"
  b_message :: "string option"
  b_address :: "string option"
  b_refreshToken :: "string option"
  user :: "TokenPayload option"

text \<open>
  How a middleware ends: \<open>Next\<close> is \<^verbatim>\<open>next()\<close> with the request as the middleware left
  it; \<open>Fail e\<close> is the error \<open>e\<close> handed to the framework's error handling, by
  \<^verbatim>\<open>next(e)\<close> or by a \<^verbatim>\<open>throw\<close> out of a synchronous middleware; \<open>Sent\<close> is a response
  written with no call of \<^verbatim>\<open>next\<close>; \<open>SentNext\<close> is a response written and \<^verbatim>\<open>next()\<close>
  called after it.
\<close>

datatype outcome =
    Next Request
  | Fail js_error
  | Sent nat body
  | SentNext nat body Request

text \<open>The calls to the outside that a handler makes, in the order it makes them.\<close>

datatype event =
    RedisGet string
  | JwtVerify string
  | FindByPk string
  | FindOneWallet string
  | Create string

text \<open>
  The two stores: the rows of \<^verbatim>\<open>users\<close>, the key-value store behind \<^verbatim>\<open>redisClient\<close>, and
  the trace of calls made so far.
  Both stores always answer: a timeout of a store is outside this embedding.
\<close>

record state =
  users :: "User list"
  redis :: "string \<rightharpoonup> string"
  trace :: "event list"

text \<open>
  The libraries the code calls and does not contain: jsonwebtoken (\<^verbatim>\<open>jwt.verify\<close> reads
  the clock, so it takes the time; \<^verbatim>\<open>jwt.sign\<close> takes the claims, the issue and
  expiry times and the key), ethers (\<^verbatim>\<open>verifyMessage\<close> of a message and a
  signature, which throws an \<^verbatim>\<open>Error\<close>, here its message, on a malformed signature), bcrypt (\<^verbatim>\<open>hash\<close> of a password and a
  salt) and the validator behind \<^verbatim>\<open>isEmail\<close>.
\<close>

record libs =
  jwt_verify :: "nat \<Rightarrow> string \<Rightarrow> string option \<Rightarrow> js_error + TokenPayload"
  jwt_sign :: "TokenPayload \<Rightarrow> nat \<Rightarrow> nat \<Rightarrow> string option \<Rightarrow> js_error + string"
  verifyMessage :: "string \<Rightarrow> string \<Rightarrow> string + string"
  bcrypt_hash :: "string \<Rightarrow> string \<Rightarrow> string"
  isEmail :: "string \<Rightarrow> bool"

text \<open>
  What the process and its random sources supply to one request: the clock, the
  environment variable \<^verbatim>\<open>JWT_SECRET\<close>, the UUID drawn for a new row, the salt drawn by
  \<^verbatim>\<open>bcrypt.genSalt(10)\<close>, the 32 random bytes as \<^verbatim>\<open>ethers.hexlify\<close> prints them and as
  \<^verbatim>\<open>toString('hex')\<close> prints them.
\<close>

record env =
  now :: nat
  process_env_JWT_SECRET :: "string option"
  uuid :: string
  salt :: string
  randomBytes_hexlify :: string
  randomBytes_hex :: string

section \<open>JavaScript string and truthiness helpers\<close>

text \<open>\<^verbatim>\<open>!x\<close> for a string that may be absent: \<^verbatim>\<open>undefined\<close> and the empty string are falsy.\<close>

definition falsy :: "string option \<Rightarrow> bool" where
  "falsy x = (case x of None \<Rightarrow> True | Some v \<Rightarrow> v = [])"

text \<open>\<^verbatim>\<open>s.split(c)\<close> for a separator of one character.\<close>

fun split_on :: "char \<Rightarrow> string \<Rightarrow> string list" where
  "split_on c [] = [[]]"
| "split_on c (x # xs) =
     (if x = c then [] # split_on c xs
      else (case split_on c xs of [] \<Rightarrow> [[x]] | p # ps \<Rightarrow> (x # p) # ps))"

text \<open>\<^verbatim>\<open>xs[1]\<close>, which is \<^verbatim>\<open>undefined\<close> past the end of the array.\<close>

fun index1 :: "'a list \<Rightarrow> 'a option" where
  "index1 (a # b # rest) = Some b"
| "index1 xs = None"

text \<open>\<^verbatim>\<open>s.startsWith(p)\<close>.\<close>

definition startsWith :: "string \<Rightarrow> string \<Rightarrow> bool" where
  "startsWith s p = (take (length p) s = p)"

text \<open>\<^verbatim>\<open>s.toLowerCase()\<close> on ASCII.\<close>

definition lower_char :: "char \<Rightarrow> char" where
  "lower_char c =
     (case map_of (zip ''ABCDEFGHIJKLMNOPQRSTUVWXYZ'' ''abcdefghijklmnopqrstuvwxyz'') c of
        Some l \<Rightarrow> l
      | None \<Rightarrow> c)"

definition toLowerCase :: "string \<Rightarrow> string" where
  "toLowerCase s = map lower_char s"

text \<open>\<^verbatim>\<open>s.slice(0, 6)\<close> and \<^verbatim>\<open>s.slice(-4)\<close>.\<close>

definition slice_0_6 :: "string \<Rightarrow> string" where
  "slice_0_6 s = take 6 s"

definition slice_last4 :: "string \<Rightarrow> string" where
  "slice_last4 s = drop (length s - 4) s"

section \<open>The stores and the libraries, as calls\<close>

definition redis_get :: "string \<Rightarrow> state \<Rightarrow> string option \<times> state" where
  "redis_get k s = (redis s k, s\<lparr>trace := trace s @ [RedisGet k]\<rparr>)"

definition jwt_verify_call ::
  "libs \<Rightarrow> env \<Rightarrow> string \<Rightarrow> string option \<Rightarrow> state \<Rightarrow> (js_error + TokenPayload) \<times> state" where
  "jwt_verify_call L E t k s =
     (jwt_verify L (now E) t k, s\<lparr>trace := trace s @ [JwtVerify t]\<rparr>)"

definition User_findByPk :: "string \<Rightarrow> state \<Rightarrow> User option \<times> state" where
  "User_findByPk pk s =
     (find (\<lambda>u. uid u = pk) (users s), s\<lparr>trace := trace s @ [FindByPk pk]\<rparr>)"

text \<open>\<^verbatim>\<open>User.findOne({ where: { walletAddress: w } })\<close>.\<close>

definition User_findOne_wallet :: "string \<Rightarrow> state \<Rightarrow> User option \<times> state" where
  "User_findOne_wallet w s =
     (find (\<lambda>u. walletAddress u = Some w) (users s),
      s\<lparr>trace := trace s @ [FindOneWallet w]\<rparr>)"

section \<open>The model \<^verbatim>\<open>User\<close>\<close>

definition hashPassword :: "libs \<Rightarrow> env \<Rightarrow> Instance \<Rightarrow> Instance" where
  "hashPassword L E i =
     (if ''password'' \<in> changed i
      then i\<lparr>dataValues :=
               (dataValues i)\<lparr>password := bcrypt_hash L (password (dataValues i)) (salt E)\<rparr>\<rparr>
      else i)"

definition beforeSave :: "libs \<Rightarrow> env \<Rightarrow> Instance \<Rightarrow> Instance" where
  "beforeSave L E i = hashPassword L E i"

text \<open>
  The ORM's attribute setter behind \<^verbatim>\<open>user.password = v\<close>: the value is stored, and the
  attribute is marked as changed when the value differs from the one held.
\<close>

definition set_password :: "string \<Rightarrow> Instance \<Rightarrow> Instance" where
  "set_password v i =
     (if v = password (dataValues i) then i
      else i\<lparr>dataValues := (dataValues i)\<lparr>password := v\<rparr>,
              changed := insert ''password'' (changed i)\<rparr>)"

text \<open>
  \<^verbatim>\<open>user.save()\<close> on the instance: the hook \<^verbatim>\<open>beforeSave\<close> runs, the values are written,
  and the ORM forgets what had changed. The stored row is \<open>dataValues\<close> of the result.
\<close>

definition save :: "libs \<Rightarrow> env \<Rightarrow> Instance \<Rightarrow> Instance" where
  "save L E i = (beforeSave L E i)\<lparr>changed := {}\<rparr>"

text \<open>The validator \<^verbatim>\<open>is: /^0x[a-fA-F0-9]{40}$/\<close> of column \<^verbatim>\<open>walletAddress\<close>.\<close>

definition is_hex :: "char \<Rightarrow> bool" where
  "is_hex c = (c \<in> set ''0123456789abcdefABCDEF'')"

definition wallet_format_ok :: "string \<Rightarrow> bool" where
  "wallet_format_ok w = (length w = 42 \<and> take 2 w = ''0x'' \<and> list_all is_hex (drop 2 w))"

text \<open>The row that \<^verbatim>\<open>User.create\<close> builds: the given attributes and the column defaults.\<close>

definition build_row :: "env \<Rightarrow> CreateUserAttributes \<Rightarrow> User" where
  "build_row E a =
     \<lparr>uid = uuid E, email = c_email a, password = c_password a,
      role = (case c_role a of None \<Rightarrow> WEB3_USER | Some r \<Rightarrow> r),
      walletAddress = c_walletAddress a, walletData = None,
      isActive = (case c_isActive a of None \<Rightarrow> True | Some b \<Rightarrow> b),
      isWalletVerified = (case c_isWalletVerified a of None \<Rightarrow> False | Some b \<Rightarrow> b)\<rparr>"

definition validate_row :: "libs \<Rightarrow> User \<Rightarrow> bool" where
  "validate_row L u =
     (isEmail L (email u) \<and>
      (case walletAddress u of None \<Rightarrow> True | Some w \<Rightarrow> wallet_format_ok w))"

text \<open>
  The primary key and the two unique indexes (\<^verbatim>\<open>email\<close>, \<^verbatim>\<open>walletAddress\<close>); a row with
  no wallet address conflicts with no other row on that index.
\<close>

definition clashes :: "User \<Rightarrow> User \<Rightarrow> bool" where
  "clashes u v =
     (uid v = uid u \<or> email v = email u \<or>
      (case walletAddress u of None \<Rightarrow> False | Some w \<Rightarrow> walletAddress v = Some w))"

definition unique_ok :: "User \<Rightarrow> User list \<Rightarrow> bool" where
  "unique_ok u us = (find (clashes u) us = None)"

text \<open>
  \<^verbatim>\<open>User.create(values)\<close>: build, validate, run the hook \<^verbatim>\<open>beforeSave\<close> (on a new
  instance the given password counts as changed), insert. A failed validator and a
  violated unique index each reject with an \<^verbatim>\<open>Error\<close> whose message is the ORM's
  \<^verbatim>\<open>Validation error\<close>.
\<close>

definition User_create ::
  "libs \<Rightarrow> env \<Rightarrow> CreateUserAttributes \<Rightarrow> state \<Rightarrow> (js_error + User) \<times> state" where
  "User_create L E a s =
     (let s1 = s\<lparr>trace := trace s @ [Create (c_email a)]\<rparr>;
          i = \<lparr>dataValues = build_row E a, changed = {''email'', ''password''}\<rparr>
      in if \<not> validate_row L (dataValues i) then (Inl (Error ''Validation error''), s1)
         else let u = dataValues (beforeSave L E i)
              in if \<not> unique_ok u (users s1)
                 then (Inl (Error ''Validation error''), s1)
                 else (Inr u, s1\<lparr>users := users s1 @ [u]\<rparr>))"

section \<open>\<^verbatim>\<open>middleware/auth.ts\<close>\<close>

text \<open>\<^verbatim>\<open>process.env.JWT_SECRET || 'your-secret-key'\<close>.\<close>

definition JWT_SECRET :: "env \<Rightarrow> string" where
  "JWT_SECRET E =
     (if falsy (process_env_JWT_SECRET E) then ''your-secret-key''
      else (case process_env_JWT_SECRET E of Some k \<Rightarrow> k | None \<Rightarrow> ''your-secret-key''))"

text \<open>
  The \<^verbatim>\<open>catch\<close> blocks. \<^verbatim>\<open>JWTError\<close> and \<^verbatim>\<open>JsonWebTokenError\<close> are \<^verbatim>\<open>Error\<close>s, so a block
  that does not name them treats them as such.
\<close>

fun catch_authenticateToken :: "js_error \<Rightarrow> js_error" where
  "catch_authenticateToken (JsonWebTokenError m) = ApiError 401 ''Invalid token''"
| "catch_authenticateToken (ApiError n m) = ApiError n m"
| "catch_authenticateToken (Error m) = ApiError 500 m"
| "catch_authenticateToken (JWTError m) = ApiError 500 m"
| "catch_authenticateToken NonError = ApiError 500 ''An unknown error occurred''"

fun catch_authenticateWallet :: "js_error \<Rightarrow> js_error" where
  "catch_authenticateWallet (ApiError n m) = ApiError n m"
| "catch_authenticateWallet (Error m) = ApiError 500 m"
| "catch_authenticateWallet (JsonWebTokenError m) = ApiError 500 m"
| "catch_authenticateWallet (JWTError m) = ApiError 500 m"
| "catch_authenticateWallet NonError = ApiError 500 ''An unknown error occurred''"

fun catch_refreshToken :: "js_error \<Rightarrow> js_error" where
  "catch_refreshToken (JWTError m) = ApiError 401 m"
| "catch_refreshToken (ApiError n m) = ApiError n m"
| "catch_refreshToken (Error m) = ApiError 500 m"
| "catch_refreshToken (JsonWebTokenError m) = ApiError 500 m"
| "catch_refreshToken NonError = ApiError 500 ''An unknown error occurred''"

definition authenticateToken :: "libs \<Rightarrow> env \<Rightarrow> Request \<Rightarrow> state \<Rightarrow> outcome \<times> state" where
  "authenticateToken L E req s =
     (let token = (case authorization req of None \<Rightarrow> None
                   | Some authHeader \<Rightarrow> index1 (split_on (CHR '' '') authHeader))
      in case token of
           None \<Rightarrow> (Fail (catch_authenticateToken (ApiError 401 ''No token provided'')), s)
         | Some t \<Rightarrow>
             if t = [] then (Fail (catch_authenticateToken (ApiError 401 ''No token provided'')), s)
             else
               let (isBlacklisted, s1) = redis_get (''bl_'' @ t) s
               in if \<not> falsy isBlacklisted
                  then (Fail (catch_authenticateToken (ApiError 401 ''Token has been revoked'')), s1)
                  else
                    let (v, s2) = jwt_verify_call L E t (Some (JWT_SECRET E)) s1
                    in case v of
                         Inl e \<Rightarrow> (Fail (catch_authenticateToken e), s2)
                       | Inr decoded \<Rightarrow>
                           let (found, s3) = User_findByPk (userId decoded) s2
                           in case found of
                                None \<Rightarrow>
                                  (Fail (catch_authenticateToken (ApiError 401 ''User not found'')), s3)
                              | Some u \<Rightarrow>
                                  if \<not> isActive u
                                  then (Fail (catch_authenticateToken
                                                (ApiError 401 ''User account is inactive'')), s3)
                                  else (Next (req\<lparr>user := Some decoded\<rparr>), s3))"

text \<open>
  The gates read \<^verbatim>\<open>req.user\<close>; where it is not set, reading a property of \<^verbatim>\<open>undefined\<close>
  throws a \<^verbatim>\<open>TypeError\<close>.
\<close>

definition requireRole :: "UserRole list \<Rightarrow> Request \<Rightarrow> state \<Rightarrow> outcome \<times> state" where
  "requireRole roles req s =
     (case user req of
        None \<Rightarrow> (Fail (Error ''TypeError''), s)
      | Some u \<Rightarrow>
          if tok_role u \<notin> set roles then (Fail (ApiError 403 ''Insufficient permissions''), s)
          else (Next req, s))"

definition web3_gate :: "Request \<Rightarrow> state \<Rightarrow> outcome \<times> state" where
  "web3_gate req s =
     (case user req of
        None \<Rightarrow> (Fail (Error ''TypeError''), s)
      | Some u \<Rightarrow>
          if falsy (tok_walletAddress u)
          then (Fail (ApiError 401 ''Web3 authentication required''), s)
          else (Next req, s))"

definition wallet_gate :: "Request \<Rightarrow> state \<Rightarrow> outcome \<times> state" where
  "wallet_gate req s =
     (case user req of
        None \<Rightarrow> (Fail (Error ''TypeError''), s)
      | Some u \<Rightarrow>
          if falsy (tok_walletAddress u)
          then (Fail (ApiError 401 ''Wallet authentication required''), s)
          else (Next req, s))"

definition verified_wallet_gate :: "Request \<Rightarrow> state \<Rightarrow> outcome \<times> state" where
  "verified_wallet_gate req s =
     (case user req of
        None \<Rightarrow> (Fail (Error ''TypeError''), s)
      | Some u \<Rightarrow>
          (case tok_walletAddress u of
             None \<Rightarrow> (Fail (ApiError 401 ''Wallet authentication required''), s)
           | Some w \<Rightarrow>
               if w = [] then (Fail (ApiError 401 ''Wallet authentication required''), s)
               else
                 let (found, s1) = User_findOne_wallet w s
                 in case found of
                      None \<Rightarrow> (Fail (ApiError 403 ''Wallet not verified''), s1)
                    | Some a \<Rightarrow>
                        if \<not> isWalletVerified a
                        then (Fail (ApiError 403 ''Wallet not verified''), s1)
                        else (Next req, s1)))"

text \<open>
  The framework runs an array of middleware from left to right; a middleware that does
  not call \<^verbatim>\<open>next()\<close> ends the chain with its outcome.
\<close>

fun run_chain ::
  "(Request \<Rightarrow> state \<Rightarrow> outcome \<times> state) list \<Rightarrow> Request \<Rightarrow> state \<Rightarrow> outcome \<times> state" where
  "run_chain [] req s = (Next req, s)"
| "run_chain (m # ms) req s =
     (case m req s of
        (Next req', s') \<Rightarrow> run_chain ms req' s'
      | r \<Rightarrow> r)"

definition requireAuth :: "libs \<Rightarrow> env \<Rightarrow> (Request \<Rightarrow> state \<Rightarrow> outcome \<times> state) list" where
  "requireAuth L E = [authenticateToken L E]"

definition requireWeb3Auth :: "libs \<Rightarrow> env \<Rightarrow> (Request \<Rightarrow> state \<Rightarrow> outcome \<times> state) list" where
  "requireWeb3Auth L E = [authenticateToken L E, web3_gate]"

definition requireWallet :: "libs \<Rightarrow> env \<Rightarrow> (Request \<Rightarrow> state \<Rightarrow> outcome \<times> state) list" where
  "requireWallet L E = [authenticateToken L E, wallet_gate]"

definition requireVerifiedWallet ::
  "libs \<Rightarrow> env \<Rightarrow> (Request \<Rightarrow> state \<Rightarrow> outcome \<times> state) list" where
  "requireVerifiedWallet L E = [authenticateToken L E, verified_wallet_gate]"

text \<open>
  \<^verbatim>\<open>generateTokenPair\<close> and \<^verbatim>\<open>verifyRefreshToken\<close> live in \<^verbatim>\<open>../utils/jwt\<close>, which is not
  part of the sources at hand: the handlers take them as arguments. Either may read and
  write the stores. \<^verbatim>\<open>generateTokenPair\<close> rejects with a plain \<^verbatim>\<open>Error\<close> (its message),
  \<^verbatim>\<open>verifyRefreshToken\<close> with any error.
\<close>

type_synonym generateTokenPair_t = "TokenPayload \<Rightarrow> state \<Rightarrow> (string + TokenPair) \<times> state"

type_synonym verifyRefreshToken_t = "string \<Rightarrow> state \<Rightarrow> (js_error + TokenPayload) \<times> state"

text \<open>
  \<^verbatim>\<open>authenticateWallet\<close> from the answer of \<^verbatim>\<open>User.findOne\<close> on: the handler awaits that
  answer, and the directory it then creates in may already differ from the one it looked
  up in.
\<close>

definition authenticateWallet_found ::
  "libs \<Rightarrow> env \<Rightarrow> generateTokenPair_t \<Rightarrow> string \<Rightarrow> User option \<Rightarrow> state \<Rightarrow> outcome \<times> state" where
  "authenticateWallet_found L E generateTokenPair w found s =
     (let (r, s1) =
            (case found of
               Some u \<Rightarrow> (Inr u, s)
             | None \<Rightarrow>
                 User_create L E
                   \<lparr>c_email = w @ ''@web3.user'',
                    c_password = randomBytes_hexlify E,
                    c_role = Some WEB3_USER,
                    c_walletAddress = Some w,
                    c_isActive = Some True,
                    c_isWalletVerified = Some True\<rparr> s)
      in case r of
           Inl e \<Rightarrow> (Fail (catch_authenticateWallet e), s1)
         | Inr u \<Rightarrow>
             (case generateTokenPair
                     \<lparr>userId = uid u, tok_role = role u, tok_walletAddress = walletAddress u\<rparr> s1 of
                (Inl m, s2) \<Rightarrow> (Fail (catch_authenticateWallet (Error m)), s2)
              | (Inr tokens, s2) \<Rightarrow>
                  (Sent 200
                     (WalletLogin
                        \<lparr>v_id = uid u, v_role = role u, v_walletAddress = walletAddress u,
                         v_isWalletVerified = Some (isWalletVerified u)\<rparr>
                        tokens), s2)))"

definition authenticateWallet ::
  "libs \<Rightarrow> env \<Rightarrow> generateTokenPair_t \<Rightarrow> Request \<Rightarrow> state \<Rightarrow> outcome \<times> state" where
  "authenticateWallet L E generateTokenPair req s =
     (case (b_walletAddress req, b_signature req, b_message req) of
        (Some w, Some sg, Some m) \<Rightarrow>
          if w = [] \<or> sg = [] \<or> m = []
          then (Fail (catch_authenticateWallet
                        (ApiError 400 ''Missing wallet authentication data'')), s)
          else
            (case verifyMessage L m sg of
               Inl e \<Rightarrow> (Fail (catch_authenticateWallet (Error e)), s)
             | Inr recoveredAddress \<Rightarrow>
                 if toLowerCase recoveredAddress \<noteq> toLowerCase w
                 then (Fail (catch_authenticateWallet (ApiError 401 ''Invalid signature'')), s)
                 else
                   let (found, s1) = User_findOne_wallet w s
                   in authenticateWallet_found L E generateTokenPair w found s1)
      | _ \<Rightarrow> (Fail (catch_authenticateWallet
                     (ApiError 400 ''Missing wallet authentication data'')), s))"

definition refreshToken ::
  "verifyRefreshToken_t \<Rightarrow> generateTokenPair_t \<Rightarrow> Request \<Rightarrow> state \<Rightarrow> outcome \<times> state" where
  "refreshToken verifyRefreshToken generateTokenPair req s =
     (case b_refreshToken req of
        None \<Rightarrow> (Fail (catch_refreshToken (ApiError 400 ''Refresh token is required'')), s)
      | Some rt \<Rightarrow>
          if rt = []
          then (Fail (catch_refreshToken (ApiError 400 ''Refresh token is required'')), s)
          else
            (case verifyRefreshToken rt s of
               (Inl e, s1) \<Rightarrow> (Fail (catch_refreshToken e), s1)
             | (Inr payload, s1) \<Rightarrow>
                 let (found, s2) = User_findByPk (userId payload) s1
                 in (case found of
                       None \<Rightarrow> (Fail (catch_refreshToken (ApiError 401 ''User not found'')), s2)
                     | Some u \<Rightarrow>
                         if \<not> isActive u
                         then (Fail (catch_refreshToken
                                       (ApiError 401 ''User account is inactive'')), s2)
                         else
                           (case generateTokenPair
                                   \<lparr>userId = uid u, tok_role = role u,
                                    tok_walletAddress = walletAddress u\<rparr> s2 of
                              (Inl m, s3) \<Rightarrow> (Fail (catch_refreshToken (Error m)), s3)
                            | (Inr tokens, s3) \<Rightarrow> (Sent 200 (Tokens tokens), s3)))))"

section \<open>\<^verbatim>\<open>middleware/authMiddleware.ts\<close>\<close>

fun catch_authenticate :: "js_error \<Rightarrow> outcome" where
  "catch_authenticate (JsonWebTokenError m) = Sent 401 (Message ''Invalid token'')"
| "catch_authenticate e = Sent 500 (Message ''Internal server error'')"

text \<open>
  \<^verbatim>\<open>jwt.verify(token, process.env.JWT_SECRET!)\<close>: the variable is passed on as it is, set
  or not. After the test of the prefix the header has a second piece; for the sake of a
  total function, a missing piece is the library's refusal of an absent token.
\<close>

definition authenticate :: "libs \<Rightarrow> env \<Rightarrow> Request \<Rightarrow> state \<Rightarrow> outcome \<times> state" where
  "authenticate L E req s =
     (case authorization req of
        None \<Rightarrow> (Sent 401 (Message ''No token provided''), s)
      | Some authHeader \<Rightarrow>
          if \<not> startsWith authHeader ''Bearer ''
          then (Sent 401 (Message ''No token provided''), s)
          else
            (case index1 (split_on (CHR '' '') authHeader) of
               None \<Rightarrow> (catch_authenticate (JsonWebTokenError ''jwt must be provided''), s)
             | Some token \<Rightarrow>
                 let (v, s1) = jwt_verify_call L E token (process_env_JWT_SECRET E) s
                 in (case v of
                       Inl e \<Rightarrow> (catch_authenticate e, s1)
                     | Inr decoded \<Rightarrow>
                         let (found, s2) = User_findByPk (userId decoded) s1
                         in (case found of
                               None \<Rightarrow> (Sent 401 (Message ''User not found''), s2)
                             | Some u \<Rightarrow>
                                 if \<not> isActive u
                                 then (Sent 403 (Message ''Account is deactivated''), s2)
                                 else (Next (req\<lparr>user :=
                                          Some \<lparr>userId = uid u, tok_role = role u,
                                                tok_walletAddress = walletAddress u\<rparr>\<rparr>), s2)))))"

text \<open>\<^verbatim>\<open>authenticateWeb3\<close> from the answer of \<^verbatim>\<open>User.findOne\<close> on; \<^verbatim>\<open>'7d'\<close> is 604800 seconds.\<close>

definition authenticateWeb3_found ::
  "libs \<Rightarrow> env \<Rightarrow> Request \<Rightarrow> string \<Rightarrow> User option \<Rightarrow> state \<Rightarrow> outcome \<times> state" where
  "authenticateWeb3_found L E req address found s =
     (let (r, s1) =
            (case found of
               Some u \<Rightarrow> (Inr u, s)
             | None \<Rightarrow>
                 User_create L E
                   \<lparr>c_email = slice_0_6 address @ ''...'' @ slice_last4 address @ ''@web3.user'',
                    c_password = randomBytes_hex E,
                    c_role = Some WEB3_USER,
                    c_walletAddress = Some address,
                    c_isActive = Some True,
                    c_isWalletVerified = None\<rparr> s)
      in case r of
           Inl e \<Rightarrow> (Sent 500 (Message ''Internal server error''), s1)
         | Inr u \<Rightarrow>
             if \<not> isActive u then (Sent 403 (Message ''Account is deactivated''), s1)
             else
               (let payload = \<lparr>userId = uid u, tok_role = role u,
                               tok_walletAddress = walletAddress u\<rparr>
                in case jwt_sign L payload (now E) (now E + 604800)
                          (process_env_JWT_SECRET E) of
                     Inl e \<Rightarrow> (Sent 500 (Message ''Internal server error''), s1)
                   | Inr token \<Rightarrow>
                       (SentNext 200
                          (Web3Login token
                             \<lparr>v_id = uid u, v_role = role u, v_walletAddress = walletAddress u,
                              v_isWalletVerified = None\<rparr>)
                          (req\<lparr>user := Some payload\<rparr>), s1)))"

definition authenticateWeb3 :: "libs \<Rightarrow> env \<Rightarrow> Request \<Rightarrow> state \<Rightarrow> outcome \<times> state" where
  "authenticateWeb3 L E req s =
     (case (b_signature req, b_message req, b_address req) of
        (Some sg, Some m, Some address) \<Rightarrow>
          if sg = [] \<or> m = [] \<or> address = []
          then (Sent 400 (Message ''Missing required fields''), s)
          else
            (case verifyMessage L m sg of
               Inl e \<Rightarrow> (Sent 500 (Message ''Internal server error''), s)
             | Inr recoveredAddress \<Rightarrow>
                 if toLowerCase recoveredAddress \<noteq> toLowerCase address
                 then (Sent 401 (Message ''Invalid signature''), s)
                 else
                   let (found, s1) = User_findOne_wallet address s
                   in authenticateWeb3_found L E req address found s1)
      | _ \<Rightarrow> (Sent 400 (Message ''Missing required fields''), s))"

section \<open>Reading an outcome\<close>

text \<open>The HTTP status an outcome carries, if it carries one.\<close>

fun status_of :: "outcome \<Rightarrow> nat option" where
  "status_of (Fail (ApiError n m)) = Some n"
| "status_of (Sent n b) = Some n"
| "status_of (SentNext n b r) = Some n"
| "status_of other = None"

fun succeeded :: "outcome \<Rightarrow> bool" where
  "succeeded (Next r) = True"
| "succeeded (Sent n b) = (n = 200)"
| "succeeded (SentNext n b r) = (n = 200)"
| "succeeded (Fail e) = False"

text \<open>Two rows that agree on everything but \<^verbatim>\<open>role\<close> and \<^verbatim>\<open>walletAddress\<close>.\<close>

definition same_but_role_wallet :: "User \<Rightarrow> User \<Rightarrow> bool" where
  "same_but_role_wallet u v = (v = u\<lparr>role := role v, walletAddress := walletAddress v\<rparr>)"

text \<open>No two rows share a wallet address.\<close>

fun wallets_unique :: "User list \<Rightarrow> bool" where
  "wallets_unique [] = True"
| "wallets_unique (u # us) =
     ((case walletAddress u of
         None \<Rightarrow> True
       | Some w \<Rightarrow> find (\<lambda>v. walletAddress v = Some w) us = None)
      \<and> wallets_unique us)"

section \<open>A small instance of the libraries and two directories\<close>

text \<open>
  Stand-ins for the libraries, for evaluating the handlers on concrete requests: the
  token \<^verbatim>\<open>tokA\<close> verifies under the key \<^verbatim>\<open>your-secret-key\<close> and the token \<^verbatim>\<open>tokB\<close> under
  the key \<^verbatim>\<open>k1\<close>, both for user \<^verbatim>\<open>u1\<close>, and so does \<^verbatim>\<open>tokW\<close>, which carries a wallet
  address; nothing else verifies. Signing needs a key. The validator follows the real
  one where the handlers' addresses differ: it wants one \<^verbatim>\<open>@\<close>, and no empty piece between
  the dots on either side of it. The signature \<^verbatim>\<open>sigA\<close> over \<^verbatim>\<open>login-nonce-7\<close> recovers the address \<open>addrA\<close>, \<^verbatim>\<open>sigB\<close> the
  address \<open>addrB\<close>.
\<close>

definition addrA :: string where
  "addrA = ''0xABCDEF0123456789abcdef0123456789ABCD1234''"

definition addrB :: string where
  "addrB = ''0xABCDff0123456789abcdef0123456789ABCD1234''"

definition demo_isEmail :: "string \<Rightarrow> bool" where
  "demo_isEmail e =
     (case split_on (CHR ''@'') e of
        [local, domain] \<Rightarrow>
          [] \<notin> set (split_on (CHR ''.'') local)
          \<and> [] \<notin> set (split_on (CHR ''.'') domain)
          \<and> 2 \<le> length (split_on (CHR ''.'') domain)
      | _ \<Rightarrow> False)"

definition payload1 :: TokenPayload where
  "payload1 = \<lparr>userId = ''u1'', tok_role = USER, tok_walletAddress = None\<rparr>"

definition payloadW :: TokenPayload where
  "payloadW = \<lparr>userId = ''u1'', tok_role = WEB3_USER, tok_walletAddress = Some addrA\<rparr>"

definition demo_libs :: libs where
  "demo_libs =
     \<lparr>jwt_verify = (\<lambda>t tok k.
         if tok = ''tokA'' \<and> k = Some ''your-secret-key'' then Inr payload1
         else if tok = ''tokB'' \<and> k = Some ''k1'' then Inr payload1
         else if tok = ''tokW'' \<and> k = Some ''k1'' then Inr payloadW
         else Inl (JsonWebTokenError ''invalid signature'')),
      jwt_sign = (\<lambda>p iat ex k.
         case k of None \<Rightarrow> Inl (Error ''secretOrPrivateKey must have a value'')
         | Some key \<Rightarrow> Inr (''signed:'' @ userId p)),
      verifyMessage = (\<lambda>m sg.
         if m = ''login-nonce-7'' \<and> sg = ''sigA'' then Inr addrA
         else if m = ''login-nonce-7'' \<and> sg = ''sigB'' then Inr addrB
         else Inl ''invalid signature length''),
      bcrypt_hash = (\<lambda>pw sl. ''hash('' @ pw @ '','' @ sl @ '')''),
      isEmail = demo_isEmail\<rparr>"

text \<open>A stand-in for \<^verbatim>\<open>generateTokenPair\<close> that always hands out the same pair.\<close>

definition demo_generateTokenPair :: generateTokenPair_t where
  "demo_generateTokenPair p s = (Inr \<lparr>accessToken = ''at'', refreshToken_of = ''rt''\<rparr>, s)"

definition demo_env :: "string option \<Rightarrow> env" where
  "demo_env secret =
     \<lparr>now = 1000, process_env_JWT_SECRET = secret, uuid = ''u2'', salt = ''s'',
      randomBytes_hexlify = ''0x00'', randomBytes_hex = ''00''\<rparr>"

definition user1 :: "bool \<Rightarrow> User" where
  "user1 active =
     \<lparr>uid = ''u1'', email = ''a@b.c'', password = ''h'', role = USER, walletAddress = None,
      walletData = None, isActive = active, isWalletVerified = False\<rparr>"

definition demo_state :: "User list \<Rightarrow> (string \<rightharpoonup> string) \<Rightarrow> state" where
  "demo_state us r = \<lparr>users = us, redis = r, trace = []\<rparr>"

definition bearer :: "string \<Rightarrow> Request" where
  "bearer tok =
     \<lparr>authorization = Some (''Bearer '' @ tok), b_walletAddress = None, b_signature = None,
      b_message = None, b_address = None, b_refreshToken = None, user = None\<rparr>"

definition refresh_request :: "string \<Rightarrow> Request" where
  "refresh_request rt =
     \<lparr>authorization = None, b_walletAddress = None, b_signature = None,
      b_message = None, b_address = None, b_refreshToken = Some rt, user = None\<rparr>"

definition wallet_request :: "string \<Rightarrow> string \<Rightarrow> Request" where
  "wallet_request a sg =
     \<lparr>authorization = None, b_walletAddress = Some a, b_signature = Some sg,
      b_message = Some ''login-nonce-7'', b_address = Some a, b_refreshToken = None,
      user = None\<rparr>"

text \<open>
  Two first logins from the same address, interleaved: the first handler has looked the
  address up and found nothing; then the second handler runs from start to end; then
  the first handler goes on from its own (now stale) answer.
\<close>

definition race_looked_up :: state where
  "race_looked_up = snd (User_findOne_wallet addrA (demo_state [] Map.empty))"

definition race_other_done :: state where
  "race_other_done =
     snd (authenticateWallet demo_libs (demo_env (Some ''k1''))
            demo_generateTokenPair
            (wallet_request addrA ''sigA'') race_looked_up)"

definition rowA :: User where
  "rowA = \<lparr>uid = ''u2'', email = addrA @ ''@web3.user'', password = ''hash(0x00,s)'',
           role = WEB3_USER, walletAddress = Some addrA, walletData = None,
           isActive = True, isWalletVerified = True\<rparr>"

text \<open>
  The address \<open>addrA\<close> in a second spelling, all in lower case, and the row a first
  login under that spelling creates.
\<close>

definition addrA_lower :: string where
  "addrA_lower = ''0xabcdef0123456789abcdef0123456789abcd1234''"

definition rowA_lower :: User where
  "rowA_lower = \<lparr>uid = ''u3'', email = addrA_lower @ ''@web3.user'',
                 password = ''hash(0x00,s)'', role = WEB3_USER,
                 walletAddress = Some addrA_lower, walletData = None,
                 isActive = True, isWalletVerified = True\<rparr>"

section \<open>Facts shared by the proofs\<close>

lemmas demo_defs = demo_libs_def demo_env_def demo_state_def bearer_def user1_def payload1_def
  payloadW_def
  refresh_request_def wallet_request_def addrA_def addrB_def addrA_lower_def demo_isEmail_def
  demo_generateTokenPair_def

lemmas call_defs = redis_get_def jwt_verify_call_def User_findByPk_def User_findOne_wallet_def

lemma JWT_SECRET_absent: "falsy (process_env_JWT_SECRET E) \<Longrightarrow> JWT_SECRET E = ''your-secret-key''"
  by (simp add: JWT_SECRET_def)

lemma JWT_SECRET_set: "k \<noteq> [] \<Longrightarrow> JWT_SECRET (E\<lparr>process_env_JWT_SECRET := Some k\<rparr>) = k"
  by (simp add: JWT_SECRET_def falsy_def)

lemma jwt_verify_call_secret:
  "jwt_verify_call L (E\<lparr>process_env_JWT_SECRET := x\<rparr>) = jwt_verify_call L E"
  by (simp add: jwt_verify_call_def fun_eq_iff)

lemma User_create_error: "fst (User_create L E a s) = Inl e \<Longrightarrow> \<exists>m. e = Error m"
  by (auto simp add: User_create_def Let_def split: if_splits)

lemma authenticateWallet_found_not_401:
  "fst (authenticateWallet_found L E gen w found s) \<noteq> Fail (ApiError 401 m)"
proof (cases found)
  case (Some u)
  then show ?thesis
    by (simp add: authenticateWallet_found_def split: prod.splits sum.splits)
next
  case None
  let ?a = "\<lparr>c_email = w @ ''@web3.user'', c_password = randomBytes_hexlify E,
             c_role = Some WEB3_USER, c_walletAddress = Some w,
             c_isActive = Some True, c_isWalletVerified = Some True\<rparr>"
  show ?thesis
  proof (cases "User_create L E ?a s")
    case (Pair r s1)
    show ?thesis
    proof (cases r)
      case (Inl e)
      from Pair Inl have "fst (User_create L E ?a s) = Inl e" by simp
      then obtain m' where "e = Error m'" using User_create_error by blast
      with None Pair Inl show ?thesis by (simp add: authenticateWallet_found_def)
    next
      case (Inr u)
      with None Pair show ?thesis
        by (simp add: authenticateWallet_found_def split: prod.splits sum.splits)
    qed
  qed
qed

lemma authenticateWeb3_found_not_401:
  "fst (authenticateWeb3_found L E req w found s) \<noteq> Sent 401 b"
  by (simp add: authenticateWeb3_found_def Let_def split: prod.splits sum.splits option.splits)

lemma same_but_role_wallet_fields:
  "same_but_role_wallet u v \<Longrightarrow> uid v = uid u \<and> isActive v = isActive u"
proof -
  assume "same_but_role_wallet u v"
  then have e: "v = u\<lparr>role := role v, walletAddress := walletAddress v\<rparr>"
    by (simp add: same_but_role_wallet_def)
  have "uid (u\<lparr>role := role v, walletAddress := walletAddress v\<rparr>) = uid u"
    and "isActive (u\<lparr>role := role v, walletAddress := walletAddress v\<rparr>) = isActive u"
    by simp_all
  with e show ?thesis by metis
qed

lemma find_same_active:
  "list_all2 same_but_role_wallet us vs \<Longrightarrow>
   map_option isActive (find (\<lambda>u. uid u = pk) us)
     = map_option isActive (find (\<lambda>u. uid u = pk) vs)"
proof (induction us vs rule: list_all2_induct)
  case Nil
  show ?case by simp
next
  case (Cons u us v vs)
  then show ?case
    using same_but_role_wallet_fields [of u v] by simp
qed

lemma authenticateToken_same_outcome:
  assumes "list_all2 same_but_role_wallet (users s1) (users s2)"
    and "redis s1 = redis s2"
  shows "fst (authenticateToken L E req s1) = fst (authenticateToken L E req s2)"
proof -
  have f: "map_option isActive (find (\<lambda>u. uid u = pk) (users s1))
             = map_option isActive (find (\<lambda>u. uid u = pk) (users s2))" for pk
    using assms(1) by (rule find_same_active)
  show ?thesis
  proof (cases "case authorization req of None \<Rightarrow> None
                | Some authHeader \<Rightarrow> index1 (split_on (CHR '' '') authHeader)")
    case None
    then show ?thesis by (simp add: authenticateToken_def)
  next
    case (Some t)
    show ?thesis
    proof (cases "jwt_verify L (now E) t (Some (JWT_SECRET E))")
      case (Inl e)
      with Some assms(2) show ?thesis
        by (simp add: authenticateToken_def call_defs)
    next
      case (Inr d)
      show ?thesis
      proof (cases "find (\<lambda>u. uid u = userId d) (users s1)")
        case None
        with f [of "userId d"] have "find (\<lambda>u. uid u = userId d) (users s2) = None"
          by simp
        with None Some Inr assms(2) show ?thesis
          by (simp add: authenticateToken_def call_defs)
      next
        case (Some u)
        with f [of "userId d"] obtain v where
          v: "find (\<lambda>u. uid u = userId d) (users s2) = Some v" "isActive v = isActive u"
          by (cases "find (\<lambda>u. uid u = userId d) (users s2)") auto
        with Some \<open>(case authorization req of None \<Rightarrow> None
                | Some authHeader \<Rightarrow> index1 (split_on (CHR '' '') authHeader)) = Some t\<close>
          Inr assms(2) show ?thesis
          by (simp add: authenticateToken_def call_defs)
      qed
    qed
  qed
qed

lemma chain_same_outcome:
  assumes "fst (m req s1) = fst (m req s2)"
    and "\<And>r x y. fst (gate r x) = fst (gate r y)"
  shows "fst (run_chain [m, gate] req s1) = fst (run_chain [m, gate] req s2)"
proof (cases "m req s1")
  case (Pair o1 t1)
  obtain o2 t2 where p2: "m req s2 = (o2, t2)" by (cases "m req s2")
  from assms(1) Pair p2 have o: "o2 = o1" by simp
  show ?thesis
  proof (cases o1)
    case (Next r)
    have "fst (run_chain [gate] r t) = fst (gate r t)" for t
      by (simp split: prod.splits outcome.splits)
    with assms(2) [of r t1 t2]
    have "fst (run_chain [gate] r t1) = fst (run_chain [gate] r t2)"
      by simp
    with Pair p2 o Next show ?thesis
      by simp
  qed (use Pair p2 o in simp_all)
qed

lemma find_Some_holds: "find P xs = Some x \<Longrightarrow> x \<in> set xs \<and> P x"
  by (induction xs) (auto split: if_splits)

lemma beforeSave_walletAddress:
  "walletAddress (dataValues (beforeSave L E i)) = walletAddress (dataValues i)"
  by (simp add: beforeSave_def hashPassword_def)

lemma User_create_conflict:
  assumes "find (\<lambda>u. walletAddress u = Some w) (users s) = Some u"
    and "c_walletAddress a = Some w"
  shows "User_create L E a s
           = (Inl (Error ''Validation error''), s\<lparr>trace := trace s @ [Create (c_email a)]\<rparr>)"
proof -
  let ?i = "\<lparr>dataValues = build_row E a, changed = {''email'', ''password''}\<rparr>"
  from assms(1) have u: "u \<in> set (users s)" "walletAddress u = Some w"
    using find_Some_holds [of "\<lambda>u. walletAddress u = Some w" "users s" u] by simp_all
  have "walletAddress (dataValues (beforeSave L E ?i)) = Some w"
    using assms(2) by (simp add: beforeSave_walletAddress build_row_def)
  with u have "clashes (dataValues (beforeSave L E ?i)) u"
    by (simp add: clashes_def)
  with u(1) have "find (clashes (dataValues (beforeSave L E ?i))) (users s) \<noteq> None"
    by (auto simp add: find_None_iff)
  then have "\<not> unique_ok (dataValues (beforeSave L E ?i)) (users s)"
    by (simp add: unique_ok_def)
  then show ?thesis
    by (simp add: User_create_def Let_def)
qed

lemma wallets_unique_append:
  assumes "wallets_unique us"
    and "\<And>w. walletAddress u = Some w \<Longrightarrow> find (\<lambda>v. walletAddress v = Some w) us = None"
  shows "wallets_unique (us @ [u])"
  using assms
proof (induction us)
  case Nil
  show ?case by (simp split: option.splits)
next
  case (Cons x xs)
  have r: "\<And>w. walletAddress u = Some w \<Longrightarrow> find (\<lambda>v. walletAddress v = Some w) xs = None"
    using Cons.prems(2) by (auto split: if_splits)
  from Cons.prems(1) have x: "wallets_unique xs" by simp
  have t: "wallets_unique (xs @ [u])" using Cons.IH [OF x r] .
  show ?case
  proof (cases "walletAddress x")
    case None
    with t show ?thesis by simp
  next
    case (Some w)
    with Cons.prems(1) have n: "find (\<lambda>v. walletAddress v = Some w) xs = None" by simp
    have "walletAddress u \<noteq> Some w"
    proof
      assume "walletAddress u = Some w"
      from Cons.prems(2) [OF this] Some show False by simp
    qed
    with n have "find (\<lambda>v. walletAddress v = Some w) (xs @ [u]) = None"
      by (auto simp add: find_None_iff)
    with Some t show ?thesis by simp
  qed
qed

lemma User_create_wallets_unique:
  assumes "wallets_unique (users t)"
  shows "wallets_unique (users (snd (User_create L E a t)))"
proof -
  let ?i = "\<lparr>dataValues = build_row E a, changed = {''email'', ''password''}\<rparr>"
  let ?u = "dataValues (beforeSave L E ?i)"
  have "wallets_unique (users t @ [?u])" if ok: "unique_ok ?u (users t)"
  proof (rule wallets_unique_append [OF assms])
    fix w assume w: "walletAddress ?u = Some w"
    from ok have "\<forall>v \<in> set (users t). \<not> clashes ?u v"
      by (simp add: unique_ok_def find_None_iff)
    with w have "\<forall>v \<in> set (users t). walletAddress v \<noteq> Some w"
      by (auto simp add: clashes_def)
    then show "find (\<lambda>v. walletAddress v = Some w) (users t) = None"
      by (simp add: find_None_iff)
  qed
  with assms show ?thesis
    by (simp add: User_create_def Let_def)
qed

section \<open>The claims\<close>

text \<open>
  C2, as the code has it. When \<^verbatim>\<open>JWT_SECRET\<close> is absent from the environment (or empty),
  \<^verbatim>\<open>authenticateToken\<close> does not fail: it behaves exactly as if the secret were configured
  as the built-in \<^verbatim>\<open>your-secret-key\<close>. \<^verbatim>\<open>authenticate\<close> of \<^verbatim>\<open>authMiddleware.ts\<close> has no
  default: with the variable absent, what it does is what the library does without a key.
\<close>

theorem authenticateToken_absent_secret_uses_default:
  "(falsy (process_env_JWT_SECRET E) \<longrightarrow>
      authenticateToken L E req s =
      authenticateToken L (E\<lparr>process_env_JWT_SECRET := Some ''your-secret-key''\<rparr>) req s)
   \<and> (process_env_JWT_SECRET E = None \<longrightarrow>
      authenticate L E req s =
      authenticate (L\<lparr>jwt_verify := \<lambda>t tok k. jwt_verify L t tok None\<rparr>) E req s)"
proof (intro conjI impI)
  assume a: "falsy (process_env_JWT_SECRET E)"
  have k': "JWT_SECRET (E\<lparr>process_env_JWT_SECRET := Some ''your-secret-key''\<rparr>) = ''your-secret-key''"
    by (simp add: JWT_SECRET_set)
  show "authenticateToken L E req s =
        authenticateToken L (E\<lparr>process_env_JWT_SECRET := Some ''your-secret-key''\<rparr>) req s"
    unfolding authenticateToken_def JWT_SECRET_absent[OF a] k' jwt_verify_call_secret ..
next
  assume a: "process_env_JWT_SECRET E = None"
  have h: "\<And>t x. jwt_verify_call (L\<lparr>jwt_verify := \<lambda>t tok k. jwt_verify L t tok None\<rparr>) E t None x
              = jwt_verify_call L E t None x"
    by (simp add: jwt_verify_call_def)
  show "authenticate L E req s =
        authenticate (L\<lparr>jwt_verify := \<lambda>t tok k. jwt_verify L t tok None\<rparr>) E req s"
    unfolding authenticate_def a h ..
qed

theorem authenticateToken_absent_secret_uses_default_witness:
  "falsy (process_env_JWT_SECRET (demo_env None))
   \<and> process_env_JWT_SECRET (demo_env None) = None
   \<and> authenticateToken demo_libs (demo_env None) (bearer ''tokA'')
        (demo_state [user1 True] Map.empty) =
      authenticateToken demo_libs
        ((demo_env None)\<lparr>process_env_JWT_SECRET := Some ''your-secret-key''\<rparr>) (bearer ''tokA'')
        (demo_state [user1 True] Map.empty)
   \<and> fst (authenticate demo_libs (demo_env None) (bearer ''tokA'')
        (demo_state [user1 True] Map.empty)) = Sent 401 (Message ''Invalid token'')"
proof -
  have h1: "falsy (process_env_JWT_SECRET (demo_env None))"
    by (simp add: demo_env_def falsy_def)
  have h2: "process_env_JWT_SECRET (demo_env None) = None"
    by (simp add: demo_env_def)
  have h3: "fst (authenticate demo_libs (demo_env None) (bearer ''tokA'')
        (demo_state [user1 True] Map.empty)) = Sent 401 (Message ''Invalid token'')"
    by (simp add: authenticate_def startsWith_def demo_defs call_defs)
  from authenticateToken_absent_secret_uses_default
         [of "demo_env None" demo_libs "bearer ''tokA''" "demo_state [user1 True] Map.empty"]
       h1 h2 h3
  show ?thesis by simp
qed

text \<open>
  C2 as stated fails: with no secret in the environment, \<^verbatim>\<open>authenticateToken\<close> accepts a
  token that verifies under the built-in key only.
\<close>

theorem absent_secret_counterexample:
  "process_env_JWT_SECRET (demo_env None) = None
   \<and> jwt_verify demo_libs (now (demo_env None)) ''tokA'' (Some ''your-secret-key'') = Inr payload1
   \<and> jwt_verify demo_libs (now (demo_env None)) ''tokA'' None
       = Inl (JsonWebTokenError ''invalid signature'')
   \<and> fst (authenticateToken demo_libs (demo_env None) (bearer ''tokA'')
             (demo_state [user1 True] Map.empty))
       = Next ((bearer ''tokA'')\<lparr>user := Some payload1\<rparr>)"
  by (simp add: authenticateToken_def JWT_SECRET_def falsy_def demo_defs call_defs)

text \<open>
  C3, as the code has it. For every request that presents a non-empty token,
  \<^verbatim>\<open>authenticateToken\<close> makes its calls in this order: first the lookup in the revocation
  store under \<^verbatim>\<open>bl_\<close> followed by the token, whether or not the token's signature
  verifies; only if the token is not marked, the one call of \<^verbatim>\<open>jwt.verify\<close> that checks
  signature and expiry; only if that succeeds, the lookup of the account.
\<close>

theorem authenticateToken_call_order:
  assumes "authorization req = Some h"
    and "index1 (split_on (CHR '' '') h) = Some t"
    and "t \<noteq> []"
  shows "trace (snd (authenticateToken L E req s)) =
           trace s @ RedisGet (''bl_'' @ t) #
             (if \<not> falsy (redis s (''bl_'' @ t)) then []
              else JwtVerify t #
                (case jwt_verify L (now E) t (Some (JWT_SECRET E)) of
                   Inl e \<Rightarrow> []
                 | Inr d \<Rightarrow> [FindByPk (userId d)]))"
  using assms
  by (simp add: authenticateToken_def call_defs split: sum.splits option.splits)

theorem authenticateToken_call_order_witness:
  "authorization (bearer ''tokB'') = Some ''Bearer tokB''
   \<and> index1 (split_on (CHR '' '') ''Bearer tokB'') = Some ''tokB''
   \<and> trace (snd (authenticateToken demo_libs (demo_env (Some ''k1'')) (bearer ''tokB'')
               (demo_state [user1 True] Map.empty)))
       = [RedisGet ''bl_tokB'', JwtVerify ''tokB'', FindByPk ''u1'']"
proof -
  have h1: "authorization (bearer ''tokB'') = Some ''Bearer tokB''"
    by (simp add: bearer_def)
  have h2: "index1 (split_on (CHR '' '') ''Bearer tokB'') = Some ''tokB''"
    by simp
  have h3: "''tokB'' \<noteq> []"
    by simp
  from authenticateToken_call_order [OF h1 h2 h3, of demo_libs "demo_env (Some ''k1'')"
         "demo_state [user1 True] Map.empty"] h1 h2
  show ?thesis
    by (simp add: JWT_SECRET_def falsy_def demo_defs)
qed

text \<open>
  C3 as stated fails: for a token whose signature does not verify, the revocation store
  is queried all the same, and before the signature is looked at; when such a token is
  marked there, the answer is "revoked" and the signature is never checked.
\<close>

theorem revocation_lookup_first_counterexample:
  "jwt_verify demo_libs (now (demo_env (Some ''k1''))) ''forged''
       (Some (JWT_SECRET (demo_env (Some ''k1''))))
     = Inl (JsonWebTokenError ''invalid signature'')
   \<and> trace (snd (authenticateToken demo_libs (demo_env (Some ''k1'')) (bearer ''forged'')
               (demo_state [] Map.empty)))
       = [RedisGet ''bl_forged'', JwtVerify ''forged'']
   \<and> authenticateToken demo_libs (demo_env (Some ''k1'')) (bearer ''forged'')
        (demo_state [] [''bl_forged'' \<mapsto> ''1''])
       = (Fail (ApiError 401 ''Token has been revoked''),
          (demo_state [] [''bl_forged'' \<mapsto> ''1''])\<lparr>trace := [RedisGet ''bl_forged'']\<rparr>)"
  by (simp add: authenticateToken_def JWT_SECRET_def falsy_def demo_defs call_defs)

text \<open>
  C4, as the code has it. For an account whose \<^verbatim>\<open>isActive\<close> is false, a request with a
  token that verifies for that account fails at once, with no caching in between:
  \<^verbatim>\<open>authenticateToken\<close> with status 401, \<^verbatim>\<open>authenticate\<close> of \<^verbatim>\<open>authMiddleware.ts\<close> with
  status 403 and the message "Account is deactivated".
\<close>

theorem inactive_account_rejected:
  assumes "authorization req = Some h"
    and "index1 (split_on (CHR '' '') h) = Some t"
    and "t \<noteq> []"
    and "find (\<lambda>u. uid u = userId d) (users s) = Some u"
    and "\<not> isActive u"
  shows "(jwt_verify L (now E) t (Some (JWT_SECRET E)) = Inr d \<longrightarrow>
            status_of (fst (authenticateToken L E req s)) = Some 401)
       \<and> (startsWith h ''Bearer '' \<and> jwt_verify L (now E) t (process_env_JWT_SECRET E) = Inr d \<longrightarrow>
            fst (authenticate L E req s) = Sent 403 (Message ''Account is deactivated''))"
  using assms
  by (simp add: authenticateToken_def authenticate_def call_defs
      split: sum.splits option.splits)

theorem inactive_account_rejected_witness:
  "authorization (bearer ''tokB'') = Some ''Bearer tokB''
   \<and> index1 (split_on (CHR '' '') ''Bearer tokB'') = Some ''tokB''
   \<and> find (\<lambda>u. uid u = userId payload1) (users (demo_state [user1 False] Map.empty))
       = Some (user1 False)
   \<and> \<not> isActive (user1 False)
   \<and> jwt_verify demo_libs (now (demo_env (Some ''k1''))) ''tokB''
        (Some (JWT_SECRET (demo_env (Some ''k1'')))) = Inr payload1
   \<and> startsWith ''Bearer tokB'' ''Bearer ''
   \<and> jwt_verify demo_libs (now (demo_env (Some ''k1''))) ''tokB''
        (process_env_JWT_SECRET (demo_env (Some ''k1''))) = Inr payload1
   \<and> status_of (fst (authenticateToken demo_libs (demo_env (Some ''k1'')) (bearer ''tokB'')
                       (demo_state [user1 False] Map.empty))) = Some 401
   \<and> fst (authenticate demo_libs (demo_env (Some ''k1'')) (bearer ''tokB'')
             (demo_state [user1 False] Map.empty))
       = Sent 403 (Message ''Account is deactivated'')"
proof -
  have h1: "authorization (bearer ''tokB'') = Some ''Bearer tokB''"
    by (simp add: bearer_def)
  have h2: "index1 (split_on (CHR '' '') ''Bearer tokB'') = Some ''tokB''"
    by simp
  have h3: "''tokB'' \<noteq> []"
    by simp
  have h4: "find (\<lambda>u. uid u = userId payload1) (users (demo_state [user1 False] Map.empty))
              = Some (user1 False)"
    by (simp add: demo_defs)
  have h5: "\<not> isActive (user1 False)"
    by (simp add: user1_def)
  have h6: "jwt_verify demo_libs (now (demo_env (Some ''k1''))) ''tokB''
              (Some (JWT_SECRET (demo_env (Some ''k1'')))) = Inr payload1"
    by (simp add: JWT_SECRET_def falsy_def demo_defs)
  have h7: "startsWith ''Bearer tokB'' ''Bearer ''"
    by (simp add: startsWith_def)
  have h8: "jwt_verify demo_libs (now (demo_env (Some ''k1''))) ''tokB''
              (process_env_JWT_SECRET (demo_env (Some ''k1''))) = Inr payload1"
    by (simp add: demo_defs)
  from inactive_account_rejected [OF h1 h2 h3 h4 h5, of demo_libs "demo_env (Some ''k1'')"]
       h1 h2 h4 h5 h6 h7 h8
  show ?thesis by simp
qed

text \<open>
  C4 as stated fails: the deactivated account's token is refused by \<^verbatim>\<open>authenticate\<close>
  with status 403, not 401.
\<close>

theorem inactive_account_403_counterexample:
  "\<not> isActive (user1 False)
   \<and> jwt_verify demo_libs (now (demo_env (Some ''k1''))) ''tokB''
        (process_env_JWT_SECRET (demo_env (Some ''k1''))) = Inr payload1
   \<and> status_of (fst (authenticate demo_libs (demo_env (Some ''k1'')) (bearer ''tokB'')
                       (demo_state [user1 False] Map.empty))) = Some 403"
  by (simp add: authenticate_def startsWith_def demo_defs call_defs)

text \<open>
  C7, as the code has it. For every identity that \<^verbatim>\<open>authenticateToken\<close> has validated and
  whose wallet address is absent (or empty), the chain \<^verbatim>\<open>requireWallet\<close> and the chain
  \<^verbatim>\<open>requireWeb3Auth\<close> end with an \<^verbatim>\<open>ApiError\<close> of status 401.
\<close>

theorem requireWallet_absent_wallet_401:
  assumes "authenticateToken L E req s = (Next req', s')"
    and "user req' = Some u"
    and "falsy (tok_walletAddress u)"
  shows "run_chain (requireWallet L E) req s
           = (Fail (ApiError 401 ''Wallet authentication required''), s')
       \<and> run_chain (requireWeb3Auth L E) req s
           = (Fail (ApiError 401 ''Web3 authentication required''), s')"
  using assms
  by (simp add: requireWallet_def requireWeb3Auth_def wallet_gate_def web3_gate_def)

theorem requireWallet_absent_wallet_401_witness:
  "authenticateToken demo_libs (demo_env (Some ''k1'')) (bearer ''tokB'')
       (demo_state [user1 True] Map.empty)
     = (Next ((bearer ''tokB'')\<lparr>user := Some payload1\<rparr>),
        (demo_state [user1 True] Map.empty)
          \<lparr>trace := [RedisGet ''bl_tokB'', JwtVerify ''tokB'', FindByPk ''u1'']\<rparr>)
   \<and> user ((bearer ''tokB'')\<lparr>user := Some payload1\<rparr>) = Some payload1
   \<and> falsy (tok_walletAddress payload1)
   \<and> fst (run_chain (requireWallet demo_libs (demo_env (Some ''k1''))) (bearer ''tokB'')
             (demo_state [user1 True] Map.empty))
       = Fail (ApiError 401 ''Wallet authentication required'')
   \<and> fst (run_chain (requireWeb3Auth demo_libs (demo_env (Some ''k1''))) (bearer ''tokB'')
             (demo_state [user1 True] Map.empty))
       = Fail (ApiError 401 ''Web3 authentication required'')"
proof -
  have h1: "authenticateToken demo_libs (demo_env (Some ''k1'')) (bearer ''tokB'')
              (demo_state [user1 True] Map.empty)
            = (Next ((bearer ''tokB'')\<lparr>user := Some payload1\<rparr>),
               (demo_state [user1 True] Map.empty)
                 \<lparr>trace := [RedisGet ''bl_tokB'', JwtVerify ''tokB'', FindByPk ''u1'']\<rparr>)"
    by (simp add: authenticateToken_def JWT_SECRET_def falsy_def demo_defs call_defs)
  have h2: "user ((bearer ''tokB'')\<lparr>user := Some payload1\<rparr>) = Some payload1"
    by simp
  have h3: "falsy (tok_walletAddress payload1)"
    by (simp add: falsy_def payload1_def)
  from requireWallet_absent_wallet_401 [OF h1 h2 h3] h1 h2 h3
  show ?thesis by simp
qed

text \<open>
  C7 as stated fails: a validated identity without a wallet address is turned away by
  \<^verbatim>\<open>requireWallet\<close> with status 401, not 403.
\<close>

theorem requireWallet_403_counterexample:
  "status_of (fst (run_chain (requireWallet demo_libs (demo_env (Some ''k1''))) (bearer ''tokB'')
                     (demo_state [user1 True] Map.empty))) = Some 401
   \<and> status_of (fst (run_chain (requireWallet demo_libs (demo_env (Some ''k1'')))
                     (bearer ''tokB'') (demo_state [user1 True] Map.empty))) \<noteq> Some 403
   \<and> status_of (fst (run_chain (requireWeb3Auth demo_libs (demo_env (Some ''k1'')))
                     (bearer ''tokB'') (demo_state [user1 True] Map.empty))) = Some 401"
  by (simp add: requireWallet_def requireWeb3Auth_def wallet_gate_def web3_gate_def
      authenticateToken_def JWT_SECRET_def falsy_def demo_defs call_defs)

text \<open>
  C8. For every wallet login whose three fields are present and whose signature yields
  an address, the handler answers with the signature mismatch (status 401, "Invalid
  signature") exactly when the recovered address and the claimed one differ after
  lower-casing; when they agree, the handler goes on to the directory. This holds for
  \<^verbatim>\<open>authenticateWallet\<close>, which reads the field \<^verbatim>\<open>walletAddress\<close>, and for
  \<^verbatim>\<open>authenticateWeb3\<close>, which reads \<^verbatim>\<open>address\<close>.
\<close>

theorem signature_mismatch_iff:
  assumes "b_signature req = Some sg"
    and "b_message req = Some m"
    and "w \<noteq> []" and "sg \<noteq> []" and "m \<noteq> []"
    and "verifyMessage L m sg = Inr recovered"
  shows "(b_walletAddress req = Some w \<longrightarrow>
            ((fst (authenticateWallet L E gen req s) = Fail (ApiError 401 ''Invalid signature''))
               \<longleftrightarrow> toLowerCase recovered \<noteq> toLowerCase w)
            \<and> (toLowerCase recovered = toLowerCase w \<longrightarrow>
                 authenticateWallet L E gen req s
                   = authenticateWallet_found L E gen w (fst (User_findOne_wallet w s))
                       (snd (User_findOne_wallet w s))))
       \<and> (b_address req = Some w \<longrightarrow>
            ((fst (authenticateWeb3 L E req s) = Sent 401 (Message ''Invalid signature''))
               \<longleftrightarrow> toLowerCase recovered \<noteq> toLowerCase w)
            \<and> (toLowerCase recovered = toLowerCase w \<longrightarrow>
                 authenticateWeb3 L E req s
                   = authenticateWeb3_found L E req w (fst (User_findOne_wallet w s))
                       (snd (User_findOne_wallet w s))))"
proof (intro conjI impI)
  assume a: "b_walletAddress req = Some w"
  show "(fst (authenticateWallet L E gen req s) = Fail (ApiError 401 ''Invalid signature''))
          \<longleftrightarrow> toLowerCase recovered \<noteq> toLowerCase w"
    using assms a authenticateWallet_found_not_401
    by (simp add: authenticateWallet_def split: prod.splits)
next
  assume a: "b_walletAddress req = Some w" and e: "toLowerCase recovered = toLowerCase w"
  show "authenticateWallet L E gen req s
          = authenticateWallet_found L E gen w (fst (User_findOne_wallet w s))
              (snd (User_findOne_wallet w s))"
    using assms a e by (simp add: authenticateWallet_def split: prod.splits)
next
  assume a: "b_address req = Some w"
  show "(fst (authenticateWeb3 L E req s) = Sent 401 (Message ''Invalid signature''))
          \<longleftrightarrow> toLowerCase recovered \<noteq> toLowerCase w"
    using assms a authenticateWeb3_found_not_401
    by (simp add: authenticateWeb3_def split: prod.splits)
next
  assume a: "b_address req = Some w" and e: "toLowerCase recovered = toLowerCase w"
  show "authenticateWeb3 L E req s
          = authenticateWeb3_found L E req w (fst (User_findOne_wallet w s))
              (snd (User_findOne_wallet w s))"
    using assms a e by (simp add: authenticateWeb3_def split: prod.splits)
qed

theorem signature_mismatch_iff_witness:
  "b_signature (wallet_request ''0xabcdef0123456789abcdef0123456789abcd1234'' ''sigA'') = Some ''sigA''
   \<and> b_message (wallet_request ''0xabcdef0123456789abcdef0123456789abcd1234'' ''sigA'')
       = Some ''login-nonce-7''
   \<and> b_walletAddress (wallet_request ''0xabcdef0123456789abcdef0123456789abcd1234'' ''sigA'')
       = Some ''0xabcdef0123456789abcdef0123456789abcd1234''
   \<and> b_address (wallet_request ''0xabcdef0123456789abcdef0123456789abcd1234'' ''sigA'')
       = Some ''0xabcdef0123456789abcdef0123456789abcd1234''
   \<and> verifyMessage demo_libs ''login-nonce-7'' ''sigA'' = Inr addrA
   \<and> toLowerCase addrA = toLowerCase ''0xabcdef0123456789abcdef0123456789abcd1234''
   \<and> fst (authenticateWallet demo_libs (demo_env (Some ''k1''))
             demo_generateTokenPair
             (wallet_request ''0xabcdef0123456789abcdef0123456789abcd1234'' ''sigA'')
             (demo_state [] Map.empty)) \<noteq> Fail (ApiError 401 ''Invalid signature'')
   \<and> fst (authenticateWeb3 demo_libs (demo_env (Some ''k1''))
             (wallet_request ''0xabcdef0123456789abcdef0123456789abcd1234'' ''sigA'')
             (demo_state [] Map.empty)) \<noteq> Sent 401 (Message ''Invalid signature'')
   \<and> toLowerCase addrA \<noteq> toLowerCase addrB
   \<and> fst (authenticateWallet demo_libs (demo_env (Some ''k1''))
             demo_generateTokenPair
             (wallet_request addrB ''sigA'') (demo_state [] Map.empty))
       = Fail (ApiError 401 ''Invalid signature'')
   \<and> fst (authenticateWeb3 demo_libs (demo_env (Some ''k1'')) (wallet_request addrB ''sigA'')
             (demo_state [] Map.empty))
       = Sent 401 (Message ''Invalid signature'')"
proof -
  let ?a = "''0xabcdef0123456789abcdef0123456789abcd1234''"
  have f1: "b_signature (wallet_request x ''sigA'') = Some ''sigA''" for x
    by (simp add: wallet_request_def)
  have f2: "b_message (wallet_request x ''sigA'') = Some ''login-nonce-7''" for x
    by (simp add: wallet_request_def)
  have f3: "b_walletAddress (wallet_request x ''sigA'') = Some x" for x
    by (simp add: wallet_request_def)
  have f4: "b_address (wallet_request x ''sigA'') = Some x" for x
    by (simp add: wallet_request_def)
  have n1: "?a \<noteq> []" and n2: "''sigA'' \<noteq> []" and n3: "''login-nonce-7'' \<noteq> []"
    and n4: "addrB \<noteq> []"
    by (simp_all add: addrB_def)
  have v: "verifyMessage demo_libs ''login-nonce-7'' ''sigA'' = Inr addrA"
    by (simp add: demo_libs_def)
  have e: "toLowerCase addrA = toLowerCase ?a"
    by (simp add: toLowerCase_def lower_char_def addrA_def)
  have d: "toLowerCase addrA \<noteq> toLowerCase addrB"
    by (simp add: toLowerCase_def lower_char_def addrA_def addrB_def)
  note t1 = signature_mismatch_iff [OF f1 [of ?a] f2 [of ?a] n1 n2 n3 v,
         where E = "demo_env (Some ''k1'')"
         and gen = demo_generateTokenPair
         and s = "demo_state [] Map.empty"]
  note t2 = signature_mismatch_iff [OF f1 [of addrB] f2 [of addrB] n4 n2 n3 v,
         where E = "demo_env (Some ''k1'')"
         and gen = demo_generateTokenPair
         and s = "demo_state [] Map.empty"]
  from t1 t2 f1 [of ?a] f2 [of ?a] f3 [of ?a] f4 [of ?a] f3 [of addrB] f4 [of addrB] v e d
  show ?thesis
    by (simp add: authenticateWallet_found_not_401 authenticateWeb3_found_not_401)
qed

text \<open>
  C9. A save of an instance whose password attribute is not marked as changed leaves
  the stored password hash as it was, also when the attribute had been set again to the
  value it already holds; and a second save right after a save does not hash the hash.
\<close>

theorem save_keeps_unchanged_password:
  assumes "''password'' \<notin> changed i"
  shows "password (dataValues (save L E i)) = password (dataValues i)
       \<and> password (dataValues (save L E (set_password (password (dataValues i)) i)))
           = password (dataValues i)
       \<and> password (dataValues (save L E2 (save L E j))) = password (dataValues (save L E j))"
  using assms
  by (simp add: save_def beforeSave_def hashPassword_def set_password_def)

theorem save_keeps_unchanged_password_witness:
  "''password'' \<notin> changed \<lparr>dataValues = user1 True, changed = {}\<rparr>
   \<and> password (dataValues (save demo_libs (demo_env None)
                  \<lparr>dataValues = user1 True, changed = {}\<rparr>)) = ''h''
   \<and> password (dataValues (save demo_libs (demo_env None)
                  (set_password ''h'' \<lparr>dataValues = user1 True, changed = {}\<rparr>))) = ''h''
   \<and> password (dataValues (save demo_libs (demo_env None)
                  (set_password ''pw'' \<lparr>dataValues = user1 True, changed = {}\<rparr>)))
       = ''hash(pw,s)''
   \<and> password (dataValues (save demo_libs (demo_env None) (save demo_libs (demo_env None)
                  (set_password ''pw'' \<lparr>dataValues = user1 True, changed = {}\<rparr>))))
       = ''hash(pw,s)''"
proof -
  have h: "''password'' \<notin> changed \<lparr>dataValues = user1 True, changed = {}\<rparr>"
    by simp
  have p: "password (dataValues \<lparr>dataValues = user1 True, changed = {}\<rparr>) = ''h''"
    by (simp add: user1_def)
  have q: "password (dataValues (save demo_libs (demo_env None)
                  (set_password ''pw'' \<lparr>dataValues = user1 True, changed = {}\<rparr>)))
             = ''hash(pw,s)''"
    by (simp add: save_def beforeSave_def hashPassword_def set_password_def demo_defs)
  from save_keeps_unchanged_password [OF h, where L = demo_libs and E = "demo_env None"
         and ?E2.0 = "demo_env None"
         and j = "set_password ''pw'' \<lparr>dataValues = user1 True, changed = {}\<rparr>"] h p q
  show ?thesis by simp
qed

text \<open>
  C10. Take two states with the same revocation store whose directories agree row by row
  on everything but \<^verbatim>\<open>role\<close> and \<^verbatim>\<open>walletAddress\<close>. For the same request,
  \<^verbatim>\<open>authenticateToken\<close> followed by \<^verbatim>\<open>requireRole\<close>, the chain \<^verbatim>\<open>requireWeb3Auth\<close> and the
  chain \<^verbatim>\<open>requireWallet\<close> end the same way in both: they read the role and the wallet
  address of the decoded token, not of the directory.
\<close>

theorem gates_decide_from_token_payload:
  assumes "list_all2 same_but_role_wallet (users s1) (users s2)"
    and "redis s1 = redis s2"
  shows "fst (run_chain [authenticateToken L E, requireRole roles] req s1)
           = fst (run_chain [authenticateToken L E, requireRole roles] req s2)
       \<and> fst (run_chain (requireWeb3Auth L E) req s1)
           = fst (run_chain (requireWeb3Auth L E) req s2)
       \<and> fst (run_chain (requireWallet L E) req s1)
           = fst (run_chain (requireWallet L E) req s2)"
proof -
  have a: "fst (authenticateToken L E req s1) = fst (authenticateToken L E req s2)"
    using assms by (rule authenticateToken_same_outcome)
  have g: "fst (run_chain [authenticateToken L E, gate] req s1)
             = fst (run_chain [authenticateToken L E, gate] req s2)"
    if "\<And>r x y. fst (gate r x) = fst (gate r y)" for gate
    using a that by (rule chain_same_outcome)
  show ?thesis
    unfolding requireWeb3Auth_def requireWallet_def
    by (intro conjI g) (simp_all add: requireRole_def web3_gate_def wallet_gate_def
        split: option.splits)
qed

theorem gates_decide_from_token_payload_witness:
  "list_all2 same_but_role_wallet (users (demo_state [user1 True] Map.empty))
     (users (demo_state [(user1 True)\<lparr>role := ADMIN, walletAddress := Some addrA\<rparr>] Map.empty))
   \<and> redis (demo_state [user1 True] Map.empty)
       = redis (demo_state [(user1 True)\<lparr>role := ADMIN, walletAddress := Some addrA\<rparr>] Map.empty)
   \<and> fst (run_chain [authenticateToken demo_libs (demo_env (Some ''k1'')), requireRole [USER]]
             (bearer ''tokB'') (demo_state [user1 True] Map.empty))
       = fst (run_chain [authenticateToken demo_libs (demo_env (Some ''k1'')), requireRole [USER]]
             (bearer ''tokB'')
             (demo_state [(user1 True)\<lparr>role := ADMIN, walletAddress := Some addrA\<rparr>] Map.empty))
   \<and> fst (run_chain [authenticateToken demo_libs (demo_env (Some ''k1'')), requireRole [USER]]
             (bearer ''tokB'')
             (demo_state [(user1 True)\<lparr>role := ADMIN, walletAddress := Some addrA\<rparr>] Map.empty))
       = Next ((bearer ''tokB'')\<lparr>user := Some payload1\<rparr>)
   \<and> fst (run_chain (requireWallet demo_libs (demo_env (Some ''k1''))) (bearer ''tokB'')
             (demo_state [(user1 True)\<lparr>role := ADMIN, walletAddress := Some addrA\<rparr>] Map.empty))
       = Fail (ApiError 401 ''Wallet authentication required'')"
proof -
  let ?s1 = "demo_state [user1 True] Map.empty"
  let ?s2 = "demo_state [(user1 True)\<lparr>role := ADMIN, walletAddress := Some addrA\<rparr>] Map.empty"
  have h1: "list_all2 same_but_role_wallet (users ?s1) (users ?s2)"
    by (simp add: same_but_role_wallet_def demo_state_def user1_def)
  have h2: "redis ?s1 = redis ?s2"
    by (simp add: demo_state_def)
  have e1: "fst (run_chain [authenticateToken demo_libs (demo_env (Some ''k1'')), requireRole [USER]]
             (bearer ''tokB'') ?s2) = Next ((bearer ''tokB'')\<lparr>user := Some payload1\<rparr>)"
    by (simp add: requireRole_def authenticateToken_def JWT_SECRET_def falsy_def demo_defs call_defs)
  have e2: "fst (run_chain (requireWallet demo_libs (demo_env (Some ''k1''))) (bearer ''tokB'') ?s2)
              = Fail (ApiError 401 ''Wallet authentication required'')"
    by (simp add: requireWallet_def wallet_gate_def authenticateToken_def JWT_SECRET_def falsy_def
        demo_defs call_defs)
  from gates_decide_from_token_payload [OF h1 h2, where L = demo_libs
         and E = "demo_env (Some ''k1'')" and roles = "[USER]" and req = "bearer ''tokB''"]
       h1 h2 e1 e2
  show ?thesis by simp
qed

text \<open>
  The chain \<^verbatim>\<open>requireVerifiedWallet\<close> is the one that asks the directory again: on two
  states that differ in one account's wallet address only, the same token passes in one
  and is turned away in the other.
\<close>

lemma requireVerifiedWallet_reads_directory:
  "list_all2 same_but_role_wallet
     [(user1 True)\<lparr>walletAddress := Some addrA, isWalletVerified := True\<rparr>]
     [(user1 True)\<lparr>walletAddress := None, isWalletVerified := True\<rparr>]
   \<and> fst (run_chain (requireVerifiedWallet demo_libs (demo_env (Some ''k1''))) (bearer ''tokW'')
             (demo_state [(user1 True)\<lparr>walletAddress := Some addrA, isWalletVerified := True\<rparr>]
                Map.empty))
       = Next ((bearer ''tokW'')\<lparr>user := Some payloadW\<rparr>)
   \<and> fst (run_chain (requireVerifiedWallet demo_libs (demo_env (Some ''k1''))) (bearer ''tokW'')
             (demo_state [(user1 True)\<lparr>walletAddress := None, isWalletVerified := True\<rparr>]
                Map.empty))
       = Fail (ApiError 403 ''Wallet not verified'')"
  by (simp add: requireVerifiedWallet_def verified_wallet_gate_def authenticateToken_def
      same_but_role_wallet_def JWT_SECRET_def falsy_def demo_defs call_defs)

text \<open>
  C5, as the code has it. When the account for the address exists by the time the
  handler creates (it found none when it looked), the create is refused by the
  directory and the handler does not recover: \<^verbatim>\<open>authenticateWallet\<close> forwards the
  directory's error with status 500, \<^verbatim>\<open>authenticateWeb3\<close> answers 500, and in both the
  refused create is the last call made, so nothing is fetched again and the directory
  stays as it was. What the directory keeps unique is the exact spelling of a wallet
  address: a create never gives one spelling two rows. Two spellings of one address
  are two keys: a login whose address differs only in letter case from the one on file
  passes the signature check, finds no account and creates a second one.
\<close>

theorem create_conflict_is_not_recovered:
  "(find (\<lambda>u. walletAddress u = Some w) (users s) = Some u \<longrightarrow>
      authenticateWallet_found L E gen w None s
        = (Fail (ApiError 500 ''Validation error''),
           s\<lparr>trace := trace s @ [Create (w @ ''@web3.user'')]\<rparr>)
      \<and> authenticateWeb3_found L E req w None s
        = (Sent 500 (Message ''Internal server error''),
           s\<lparr>trace := trace s @
                [Create (slice_0_6 w @ ''...'' @ slice_last4 w @ ''@web3.user'')]\<rparr>))
   \<and> (wallets_unique (users t) \<longrightarrow> wallets_unique (users (snd (User_create L E a t))))
   \<and> (b_walletAddress rq = Some w2 \<and> b_signature rq = Some sg \<and> b_message rq = Some m
        \<and> w2 \<noteq> [] \<and> sg \<noteq> [] \<and> m \<noteq> []
        \<and> verifyMessage L m sg = Inr w1
        \<and> toLowerCase w1 = toLowerCase w2 \<and> w1 \<noteq> w2
        \<and> find (\<lambda>u. walletAddress u = Some w1) (users t) = Some r
        \<and> (\<forall>v \<in> set (users t).
              uid v \<noteq> uuid E \<and> email v \<noteq> w2 @ ''@web3.user'' \<and> walletAddress v \<noteq> Some w2)
        \<and> isEmail L (w2 @ ''@web3.user'') \<and> wallet_format_ok w2
        \<and> (\<forall>p x. users (snd (gen p x)) = users x)
       \<longrightarrow> users (snd (authenticateWallet L E gen rq t))
             = users t @
               [\<lparr>uid = uuid E, email = w2 @ ''@web3.user'',
                 password = bcrypt_hash L (randomBytes_hexlify E) (salt E),
                 role = WEB3_USER, walletAddress = Some w2, walletData = None,
                 isActive = True, isWalletVerified = True\<rparr>])"
proof (intro conjI impI)
  assume c: "find (\<lambda>u. walletAddress u = Some w) (users s) = Some u"
  let ?a1 = "\<lparr>c_email = w @ ''@web3.user'', c_password = randomBytes_hexlify E,
              c_role = Some WEB3_USER, c_walletAddress = Some w,
              c_isActive = Some True, c_isWalletVerified = Some True\<rparr>"
  have "User_create L E ?a1 s
          = (Inl (Error ''Validation error''), s\<lparr>trace := trace s @ [Create (c_email ?a1)]\<rparr>)"
    by (rule User_create_conflict [OF c]) simp
  then show "authenticateWallet_found L E gen w None s
        = (Fail (ApiError 500 ''Validation error''),
           s\<lparr>trace := trace s @ [Create (w @ ''@web3.user'')]\<rparr>)"
    by (simp add: authenticateWallet_found_def)
next
  assume c: "find (\<lambda>u. walletAddress u = Some w) (users s) = Some u"
  let ?a2 = "\<lparr>c_email = slice_0_6 w @ ''...'' @ slice_last4 w @ ''@web3.user'',
              c_password = randomBytes_hex E, c_role = Some WEB3_USER,
              c_walletAddress = Some w, c_isActive = Some True,
              c_isWalletVerified = None\<rparr>"
  have "User_create L E ?a2 s
          = (Inl (Error ''Validation error''), s\<lparr>trace := trace s @ [Create (c_email ?a2)]\<rparr>)"
    by (rule User_create_conflict [OF c]) simp
  then show "authenticateWeb3_found L E req w None s
        = (Sent 500 (Message ''Internal server error''),
           s\<lparr>trace := trace s @
                [Create (slice_0_6 w @ ''...'' @ slice_last4 w @ ''@web3.user'')]\<rparr>)"
    by (simp add: authenticateWeb3_found_def)
next
  assume "wallets_unique (users t)"
  then show "wallets_unique (users (snd (User_create L E a t)))"
    by (rule User_create_wallets_unique)
next
  assume h: "b_walletAddress rq = Some w2 \<and> b_signature rq = Some sg \<and> b_message rq = Some m
        \<and> w2 \<noteq> [] \<and> sg \<noteq> [] \<and> m \<noteq> []
        \<and> verifyMessage L m sg = Inr w1
        \<and> toLowerCase w1 = toLowerCase w2 \<and> w1 \<noteq> w2
        \<and> find (\<lambda>u. walletAddress u = Some w1) (users t) = Some r
        \<and> (\<forall>v \<in> set (users t).
              uid v \<noteq> uuid E \<and> email v \<noteq> w2 @ ''@web3.user'' \<and> walletAddress v \<noteq> Some w2)
        \<and> isEmail L (w2 @ ''@web3.user'') \<and> wallet_format_ok w2
        \<and> (\<forall>p x. users (snd (gen p x)) = users x)"
  let ?a = "\<lparr>c_email = w2 @ ''@web3.user'', c_password = randomBytes_hexlify E,
             c_role = Some WEB3_USER, c_walletAddress = Some w2,
             c_isActive = Some True, c_isWalletVerified = Some True\<rparr>"
  let ?row = "\<lparr>uid = uuid E, email = w2 @ ''@web3.user'',
                 password = bcrypt_hash L (randomBytes_hexlify E) (salt E),
                 role = WEB3_USER, walletAddress = Some w2, walletData = None,
                 isActive = True, isWalletVerified = True\<rparr>"
  let ?t1 = "t\<lparr>trace := trace t @ [FindOneWallet w2]\<rparr>"
  from h have none: "find (\<lambda>u. walletAddress u = Some w2) (users t) = None"
    by (simp add: find_None_iff)
  from h have pass: "authenticateWallet L E gen rq t
                       = authenticateWallet_found L E gen w2 None ?t1"
    using none by (simp add: authenticateWallet_def User_findOne_wallet_def)
  from h have "find (clashes ?row) (users t) = None"
    by (simp add: find_None_iff clashes_def)
  with h have cr: "User_create L E ?a ?t1
                     = (Inr ?row, ?t1\<lparr>trace := trace ?t1 @ [Create (w2 @ ''@web3.user'')],
                                       users := users t @ [?row]\<rparr>)"
    by (simp add: User_create_def Let_def build_row_def validate_row_def beforeSave_def
        hashPassword_def unique_ok_def)
  from h have g: "users (snd (gen p x)) = users x" for p x
    by simp
  let ?s1 = "?t1\<lparr>trace := trace ?t1 @ [Create (w2 @ ''@web3.user'')],
                  users := users t @ [?row]\<rparr>"
  let ?p = "\<lparr>userId = uuid E, tok_role = WEB3_USER, tok_walletAddress = Some w2\<rparr>"
  obtain x s2 where gp: "gen ?p ?s1 = (x, s2)"
    by (cases "gen ?p ?s1")
  from g [of ?p ?s1] gp have u2: "users s2 = users t @ [?row]"
    by simp
  have "snd (authenticateWallet_found L E gen w2 None ?t1) = s2"
    using cr gp by (cases x) (simp_all add: authenticateWallet_found_def)
  with u2 have "users (snd (authenticateWallet_found L E gen w2 None ?t1)) = users t @ [?row]"
    by simp
  with pass show "users (snd (authenticateWallet L E gen rq t)) = users t @ [?row]"
    by simp
qed


theorem create_conflict_is_not_recovered_witness:
  "find (\<lambda>u. walletAddress u = Some addrA) (users (demo_state [rowA] Map.empty)) = Some rowA
   \<and> authenticateWallet_found demo_libs ((demo_env (Some ''k1''))\<lparr>uuid := ''u3''\<rparr>)
         demo_generateTokenPair addrA None (demo_state [rowA] Map.empty)
       = (Fail (ApiError 500 ''Validation error''),
          (demo_state [rowA] Map.empty)\<lparr>trace := [Create (addrA @ ''@web3.user'')]\<rparr>)
   \<and> fst (authenticateWeb3_found demo_libs ((demo_env (Some ''k1''))\<lparr>uuid := ''u3''\<rparr>)
             (wallet_request addrA ''sigA'') addrA None (demo_state [rowA] Map.empty))
       = Sent 500 (Message ''Internal server error'')
   \<and> wallets_unique (users (demo_state [rowA] Map.empty))
   \<and> wallets_unique (users (snd (User_create demo_libs ((demo_env (Some ''k1''))\<lparr>uuid := ''u3''\<rparr>)
        \<lparr>c_email = ''b@c.d'', c_password = ''pw'', c_role = None, c_walletAddress = Some addrB,
         c_isActive = None, c_isWalletVerified = None\<rparr> (demo_state [rowA] Map.empty))))
   \<and> verifyMessage demo_libs ''login-nonce-7'' ''sigA'' = Inr addrA
   \<and> toLowerCase addrA = toLowerCase addrA_lower
   \<and> addrA \<noteq> addrA_lower
   \<and> users (snd (authenticateWallet demo_libs ((demo_env (Some ''k1''))\<lparr>uuid := ''u3''\<rparr>)
                   demo_generateTokenPair (wallet_request addrA_lower ''sigA'')
                   (demo_state [rowA] Map.empty)))
       = [rowA, rowA_lower]"
proof -
  let ?t = "demo_state [rowA] Map.empty"
  let ?E = "(demo_env (Some ''k1''))\<lparr>uuid := ''u3''\<rparr>"
  let ?rq = "wallet_request addrA_lower ''sigA''"
  let ?a = "\<lparr>c_email = ''b@c.d'', c_password = ''pw'', c_role = None,
             c_walletAddress = Some addrB, c_isActive = None, c_isWalletVerified = None\<rparr>"
  have h1: "find (\<lambda>u. walletAddress u = Some addrA) (users ?t) = Some rowA"
    by (simp add: demo_state_def rowA_def)
  have h2: "wallets_unique (users ?t)"
    by (simp add: demo_state_def rowA_def)
  have h3: "b_walletAddress ?rq = Some addrA_lower \<and> b_signature ?rq = Some ''sigA''
            \<and> b_message ?rq = Some ''login-nonce-7''
            \<and> addrA_lower \<noteq> [] \<and> ''sigA'' \<noteq> [] \<and> ''login-nonce-7'' \<noteq> []"
    by (simp add: wallet_request_def addrA_lower_def)
  have h4: "verifyMessage demo_libs ''login-nonce-7'' ''sigA'' = Inr addrA"
    by (simp add: demo_libs_def)
  have h5: "toLowerCase addrA = toLowerCase addrA_lower"
    by (simp add: toLowerCase_def lower_char_def addrA_def addrA_lower_def)
  have h6: "addrA \<noteq> addrA_lower"
    by (simp add: addrA_def addrA_lower_def)
  have h7: "\<forall>v \<in> set (users ?t).
              uid v \<noteq> uuid ?E \<and> email v \<noteq> addrA_lower @ ''@web3.user''
              \<and> walletAddress v \<noteq> Some addrA_lower"
    by (simp add: demo_state_def demo_env_def rowA_def addrA_def addrA_lower_def)
  have h8: "isEmail demo_libs (addrA_lower @ ''@web3.user'') \<and> wallet_format_ok addrA_lower"
    by (simp add: demo_libs_def demo_isEmail_def wallet_format_ok_def is_hex_def addrA_lower_def)
  have h9: "\<forall>p x. users (snd (demo_generateTokenPair p x)) = users x"
    by (simp add: demo_generateTokenPair_def)
  have row: "\<lparr>uid = uuid ?E, email = addrA_lower @ ''@web3.user'',
               password = bcrypt_hash demo_libs (randomBytes_hexlify ?E) (salt ?E),
               role = WEB3_USER, walletAddress = Some addrA_lower, walletData = None,
               isActive = True, isWalletVerified = True\<rparr> = rowA_lower"
    by (simp add: rowA_lower_def demo_libs_def demo_env_def)
  note T = create_conflict_is_not_recovered [where L = demo_libs and E = ?E
             and gen = demo_generateTokenPair and w = addrA and s = ?t and u = rowA
             and req = "wallet_request addrA ''sigA''" and t = ?t and a = ?a and rq = ?rq
             and ?w2.0 = addrA_lower and sg = "''sigA''" and m = "''login-nonce-7''"
             and ?w1.0 = addrA and r = rowA]
  from T h1 have c1: "authenticateWallet_found demo_libs ?E demo_generateTokenPair addrA None ?t
       = (Fail (ApiError 500 ''Validation error''),
          ?t\<lparr>trace := trace ?t @ [Create (addrA @ ''@web3.user'')]\<rparr>)"
    and c2: "fst (authenticateWeb3_found demo_libs ?E (wallet_request addrA ''sigA'') addrA None ?t)
       = Sent 500 (Message ''Internal server error'')"
    by simp_all
  from T h2 have c3: "wallets_unique (users (snd (User_create demo_libs ?E ?a ?t)))"
    by blast
  from T h1 h3 h4 h5 h6 h7 h8 h9
  have "users (snd (authenticateWallet demo_libs ?E demo_generateTokenPair ?rq ?t))
          = users ?t @
            [\<lparr>uid = uuid ?E, email = addrA_lower @ ''@web3.user'',
              password = bcrypt_hash demo_libs (randomBytes_hexlify ?E) (salt ?E),
              role = WEB3_USER, walletAddress = Some addrA_lower, walletData = None,
              isActive = True, isWalletVerified = True\<rparr>]"
    by blast
  then have c4: "users (snd (authenticateWallet demo_libs ?E demo_generateTokenPair ?rq ?t))
                   = [rowA, rowA_lower]"
    unfolding row by (simp add: demo_state_def)
  have tr: "trace ?t = []"
    by (simp add: demo_state_def)
  from h1 c1 c2 h2 c3 h4 h5 h6 c4 show ?thesis
    by (simp add: tr)
qed

text \<open>
  C5 as stated fails, in both halves. In the interleaving of two first logins from one
  address, the handler that creates second ends with status 500 instead of fetching
  the account that now exists. And a later login that spells the same address in lower
  case gets an account of its own, so the address ends with two.
\<close>

theorem create_conflict_counterexample:
  "fst (User_findOne_wallet addrA (demo_state [] Map.empty)) = None
   \<and> users race_other_done = [rowA]
   \<and> fst (authenticateWallet_found demo_libs ((demo_env (Some ''k1''))\<lparr>uuid := ''u3''\<rparr>)
             demo_generateTokenPair addrA None race_other_done)
       = Fail (ApiError 500 ''Validation error'')
   \<and> users (snd (authenticateWallet_found demo_libs ((demo_env (Some ''k1''))\<lparr>uuid := ''u3''\<rparr>)
             demo_generateTokenPair addrA None race_other_done)) = [rowA]
   \<and> toLowerCase addrA_lower = toLowerCase addrA
   \<and> users (snd (authenticateWallet demo_libs ((demo_env (Some ''k1''))\<lparr>uuid := ''u3''\<rparr>)
                   demo_generateTokenPair (wallet_request addrA_lower ''sigA'')
                   race_other_done))
       = [rowA, rowA_lower]"
proof -
  have r: "users race_other_done = [rowA]"
    by (simp add: race_other_done_def race_looked_up_def authenticateWallet_def
        authenticateWallet_found_def User_create_def build_row_def
        validate_row_def wallet_format_ok_def is_hex_def beforeSave_def hashPassword_def
        unique_ok_def clashes_def toLowerCase_def lower_char_def demo_defs call_defs rowA_def
        Let_def)
  have f: "fst (User_findOne_wallet addrA (demo_state [] Map.empty)) = None"
    by (simp add: User_findOne_wallet_def demo_state_def)
  have a: "fst (authenticateWallet_found demo_libs ((demo_env (Some ''k1''))\<lparr>uuid := ''u3''\<rparr>)
             demo_generateTokenPair addrA None race_other_done)
             = Fail (ApiError 500 ''Validation error'')
         \<and> users (snd (authenticateWallet_found demo_libs
                          ((demo_env (Some ''k1''))\<lparr>uuid := ''u3''\<rparr>)
                          demo_generateTokenPair addrA None race_other_done)) = [rowA]"
    by (simp add: authenticateWallet_found_def User_create_def build_row_def validate_row_def
        wallet_format_ok_def is_hex_def beforeSave_def hashPassword_def unique_ok_def
        clashes_def r demo_defs rowA_def Let_def)
  have l: "toLowerCase addrA_lower = toLowerCase addrA"
    by (simp add: toLowerCase_def lower_char_def addrA_def addrA_lower_def)
  have b: "users (snd (authenticateWallet demo_libs ((demo_env (Some ''k1''))\<lparr>uuid := ''u3''\<rparr>)
                   demo_generateTokenPair (wallet_request addrA_lower ''sigA'')
                   race_other_done))
       = [rowA, rowA_lower]"
    by (simp add: authenticateWallet_def authenticateWallet_found_def User_create_def
        build_row_def validate_row_def wallet_format_ok_def is_hex_def beforeSave_def
        hashPassword_def unique_ok_def clashes_def toLowerCase_def lower_char_def
        User_findOne_wallet_def r demo_defs rowA_def rowA_lower_def Let_def)
  from f r a l b show ?thesis by simp
qed

text \<open>
  C6 on \<^verbatim>\<open>authenticateWeb3\<close>. The email it builds for a new account, the first six and
  the last four characters of the address around three dots, is not one the column's
  \<^verbatim>\<open>isEmail\<close> validator takes. Whenever the validator refuses it, the first login of an
  address creates no account at all: the create is rejected, the handler answers 500
  and the directory stays as it was. The attributes it hands over also leave
  \<^verbatim>\<open>isWalletVerified\<close> to the column default \<^verbatim>\<open>false\<close>.
\<close>

theorem authenticateWeb3_first_login_creates_no_account:
  assumes "\<not> isEmail L (slice_0_6 w @ ''...'' @ slice_last4 w @ ''@web3.user'')"
  shows "authenticateWeb3_found L E req w None s
           = (Sent 500 (Message ''Internal server error''),
              s\<lparr>trace := trace s @
                   [Create (slice_0_6 w @ ''...'' @ slice_last4 w @ ''@web3.user'')]\<rparr>)
       \<and> isWalletVerified
            (build_row E
               \<lparr>c_email = slice_0_6 w @ ''...'' @ slice_last4 w @ ''@web3.user'',
                c_password = randomBytes_hex E, c_role = Some WEB3_USER,
                c_walletAddress = Some w, c_isActive = Some True,
                c_isWalletVerified = None\<rparr>) = False"
  using assms
  by (simp add: authenticateWeb3_found_def User_create_def Let_def build_row_def
      validate_row_def)

theorem authenticateWeb3_first_login_creates_no_account_witness:
  "\<not> isEmail demo_libs (slice_0_6 addrA @ ''...'' @ slice_last4 addrA @ ''@web3.user'')
   \<and> slice_0_6 addrA @ ''...'' @ slice_last4 addrA @ ''@web3.user'' = ''0xABCD...1234@web3.user''
   \<and> authenticateWeb3 demo_libs (demo_env (Some ''k1'')) (wallet_request addrA ''sigA'')
        (demo_state [] Map.empty)
       = (Sent 500 (Message ''Internal server error''),
          (demo_state [] Map.empty)
            \<lparr>trace := [FindOneWallet addrA, Create ''0xABCD...1234@web3.user'']\<rparr>)
   \<and> authenticateWallet demo_libs (demo_env (Some ''k1'')) demo_generateTokenPair
        (wallet_request addrA ''sigA'') (demo_state [] Map.empty)
       = (Sent 200
            (WalletLogin
               \<lparr>v_id = ''u2'', v_role = WEB3_USER, v_walletAddress = Some addrA,
                v_isWalletVerified = Some True\<rparr>
               \<lparr>accessToken = ''at'', refreshToken_of = ''rt''\<rparr>),
          (demo_state [rowA] Map.empty)
            \<lparr>trace := [FindOneWallet addrA, Create (addrA @ ''@web3.user'')]\<rparr>)"
proof -
  let ?s1 = "(demo_state [] Map.empty)\<lparr>trace := [FindOneWallet addrA]\<rparr>"
  have h: "\<not> isEmail demo_libs (slice_0_6 addrA @ ''...'' @ slice_last4 addrA @ ''@web3.user'')"
    by (simp add: demo_libs_def demo_isEmail_def slice_0_6_def slice_last4_def addrA_def)
  have e: "slice_0_6 addrA @ ''...'' @ slice_last4 addrA @ ''@web3.user''
             = ''0xABCD...1234@web3.user''"
    by (simp add: slice_0_6_def slice_last4_def addrA_def)
  have vm: "verifyMessage demo_libs ''login-nonce-7'' ''sigA'' = Inr addrA"
    by (simp add: demo_libs_def)
  have p: "authenticateWeb3 demo_libs (demo_env (Some ''k1'')) (wallet_request addrA ''sigA'')
             (demo_state [] Map.empty)
           = authenticateWeb3_found demo_libs (demo_env (Some ''k1''))
               (wallet_request addrA ''sigA'') addrA None ?s1"
    by (simp add: authenticateWeb3_def User_findOne_wallet_def vm demo_state_def
        wallet_request_def addrA_def)
  have q: "authenticateWallet demo_libs (demo_env (Some ''k1'')) demo_generateTokenPair
        (wallet_request addrA ''sigA'') (demo_state [] Map.empty)
       = (Sent 200
            (WalletLogin
               \<lparr>v_id = ''u2'', v_role = WEB3_USER, v_walletAddress = Some addrA,
                v_isWalletVerified = Some True\<rparr>
               \<lparr>accessToken = ''at'', refreshToken_of = ''rt''\<rparr>),
          (demo_state [rowA] Map.empty)
            \<lparr>trace := [FindOneWallet addrA, Create (addrA @ ''@web3.user'')]\<rparr>)"
    by (simp add: authenticateWallet_def authenticateWallet_found_def User_create_def
        build_row_def validate_row_def wallet_format_ok_def is_hex_def beforeSave_def
        hashPassword_def unique_ok_def clashes_def toLowerCase_def lower_char_def
        User_findOne_wallet_def demo_defs rowA_def Let_def)
  from authenticateWeb3_first_login_creates_no_account
         [OF h, where E = "demo_env (Some ''k1'')" and req = "wallet_request addrA ''sigA''"
          and s = ?s1] h e p q
  show ?thesis by (simp add: demo_state_def)
qed

text \<open>
  The sibling handler \<^verbatim>\<open>authenticateWallet\<close> does what the claim says: the account it
  creates has the wallet role, is active and wallet-verified, and its email is the whole
  address followed by \<^verbatim>\<open>@web3.user\<close>, which differs for different addresses.
\<close>

lemma authenticateWallet_creates_verified_account:
  assumes "fst (authenticateWallet_found L E gen w None s) = Sent n b"
  shows "fst (User_create L E
                \<lparr>c_email = w @ ''@web3.user'', c_password = randomBytes_hexlify E,
                 c_role = Some WEB3_USER, c_walletAddress = Some w,
                 c_isActive = Some True, c_isWalletVerified = Some True\<rparr> s)
           = Inr \<lparr>uid = uuid E, email = w @ ''@web3.user'',
                  password = bcrypt_hash L (randomBytes_hexlify E) (salt E),
                  role = WEB3_USER, walletAddress = Some w, walletData = None,
                  isActive = True, isWalletVerified = True\<rparr>
       \<and> (\<exists>tokens. b = WalletLogin
                          \<lparr>v_id = uuid E, v_role = WEB3_USER, v_walletAddress = Some w,
                           v_isWalletVerified = Some True\<rparr> tokens)"
  using assms
  by (auto simp add: authenticateWallet_found_def User_create_def Let_def build_row_def
      beforeSave_def hashPassword_def split: if_splits sum.splits prod.splits)

lemma wallet_email_injective: "w @ ''@web3.user'' = w' @ ''@web3.user'' \<longleftrightarrow> w = w'"
  by simp

text \<open>
  The handler \<^verbatim>\<open>refreshToken\<close> writes to neither store itself: where its two helpers
  leave the revocation store and the directory as they are, so does a rotation. Whether
  a presented refresh token is marked as used is decided inside the helpers.
\<close>

lemma refreshToken_writes_no_store:
  assumes v: "\<And>rt x. redis (snd (V rt x)) = redis x \<and> users (snd (V rt x)) = users x"
    and g: "\<And>p x. redis (snd (G p x)) = redis x \<and> users (snd (G p x)) = users x"
  shows "redis (snd (refreshToken V G req s)) = redis s
       \<and> users (snd (refreshToken V G req s)) = users s"
proof (cases "b_refreshToken req")
  case None
  then show ?thesis by (simp add: refreshToken_def)
next
  case (Some rt)
  obtain r s1 where vr: "V rt s = (r, s1)" by (cases "V rt s")
  from v [of rt s] vr have s1: "redis s1 = redis s" "users s1 = users s" by simp_all
  show ?thesis
  proof (cases r)
    case (Inl e)
    with Some vr s1 show ?thesis by (simp add: refreshToken_def)
  next
    case (Inr payload)
    let ?s2 = "s1\<lparr>trace := trace s1 @ [FindByPk (userId payload)]\<rparr>"
    show ?thesis
    proof (cases "find (\<lambda>u. uid u = userId payload) (users s1)")
      case None
      with Some vr Inr s1 show ?thesis
        by (simp add: refreshToken_def User_findByPk_def)
    next
      case (Some u)
      let ?p = "\<lparr>userId = uid u, tok_role = role u, tok_walletAddress = walletAddress u\<rparr>"
      obtain x s3 where gr: "G ?p ?s2 = (x, s3)" by (cases "G ?p ?s2")
      from g [of ?p ?s2] gr s1 have s3: "redis s3 = redis s" "users s3 = users s"
        by simp_all
      from \<open>b_refreshToken req = Some rt\<close> vr Inr Some gr s1 s3 show ?thesis
        by (cases x) (simp_all add: refreshToken_def User_findByPk_def)
    qed
  qed
qed

end
